theory Spec2Isabelle
  imports Complex_Main "HOL-Library.Word"
begin

section \<open>Values, errors and the logging sink\<close>

text \<open>
  A JavaScript exception object is modelled by its \<open>name\<close> and its \<open>message\<close>.
  \<open>new Error(m)\<close> is \<open>Err ''Error'' m\<close>; faults of the browser engine and of the
  libraries are values of the same type, supplied by the environment.
\<close>

datatype error = Err (ename: string) (emessage: string)

definition new_Error :: "string \<Rightarrow> error" where
  "new_Error m = Err ''Error'' m"

text \<open>\<open>String(error)\<close>: the name, and the message after a colon when there is one.\<close>

definition String_error :: "error \<Rightarrow> string" where
  "String_error e = (if emessage e = [] then ename e else ename e @ '': '' @ emessage e)"

text \<open>The two quote characters that occur inside the template literals of the source.\<close>

definition dq :: char where
  "dq = CHR 0x22"

definition sq :: char where
  "sq = CHR 0x27"

text \<open>\<open>'${s}'\<close> inside a template literal.\<close>

definition quoted :: "string \<Rightarrow> string" where
  "quoted s = sq # s @ [sq]"

text \<open>
  The logger is an external sink. A call \<open>logger.info(m)\<close> or \<open>logger.error(m)\<close> appends
  one line; for \<open>logger.error(m, error)\<close> the line keeps the message \<open>m\<close> only.
\<close>

datatype level = Info | Error

type_synonym log = "(level \<times> string) list"

section \<open>Selector translation\<close>

text \<open>\<open>selector.startsWith(p)\<close>.\<close>

definition startsWith :: "string \<Rightarrow> string \<Rightarrow> bool" where
  "startsWith s p = (take (length p) s = p)"

text \<open>The regular expression \<open>/^(\/\/|\()/\<close>, tested against the selector.\<close>

definition xpathPattern_test :: "string \<Rightarrow> bool" where
  "xpathPattern_test s = (startsWith s ''//'' \<or> startsWith s ''('')"

text \<open>
  \<open>formSelector\<close>: a leading \<open>#\<close> is removed (\<open>selector.slice(1)\<close>) and the remainder is put
  between \<open>[data-testid="\<close> and \<open>"]\<close>; a selector that matches the pattern is returned as it
  is; anything else raises.
\<close>

definition formSelector :: "string \<Rightarrow> error + string" where
  "formSelector selector =
     (if startsWith selector ''#'' then
        (let dataTestId = drop 1 selector
         in Inr (''[data-testid='' @ [dq] @ dataTestId @ [dq] @ '']''))
      else if xpathPattern_test selector then Inr selector
      else Inl (new_Error (''Invalid selector format: '' @ selector)))"

section \<open>The browser engine as seen by the page fixture\<close>

text \<open>
  \<open>enum ElementWaitState { PRESENT = 1, VISIBLE = 2, INVISIBLE = 3 }\<close> is a numeric
  enumeration: at run time a wait state is a number, and a number that is none of the
  three members can be passed where the type is expected.
\<close>

type_synonym ElementWaitState = int

definition PRESENT :: ElementWaitState where
  "PRESENT = 1"

definition VISIBLE :: ElementWaitState where
  "VISIBLE = 2"

definition INVISIBLE :: ElementWaitState where
  "INVISIBLE = 3"

text \<open>Decimal digits, and \<open>${n}\<close> for an integer \<open>n\<close> inside a template literal.\<close>

definition digit_char :: "nat \<Rightarrow> char" where
  "digit_char n = ''0123456789'' ! (n mod 10)"

fun string_of_nat :: "nat \<Rightarrow> string" where
  "string_of_nat n =
     (if n < 10 then [digit_char n] else string_of_nat (n div 10) @ [digit_char n])"

declare string_of_nat.simps [simp del]

definition String_number :: "int \<Rightarrow> string" where
  "String_number i =
     (if i < 0 then CHR ''-'' # string_of_nat (nat (- i)) else string_of_nat (nat i))"

text \<open>The JavaScript values that the engine hands back from a page evaluation.\<close>

datatype jsval = JUndefined | JNull | JBool bool | JString string | JNumber int

text \<open>Element handles and property handles are opaque references owned by the engine.\<close>

type_synonym handle = nat

type_synonym jshandle = nat

text \<open>
  A pending engine operation either never settles, or settles at some time (in
  milliseconds after it was started) with an error or a value.
\<close>

datatype 'a promise = Never | Settles nat "error + 'a"

text \<open>
  The engine is an external collaborator: each field is what the corresponding Playwright
  call answers while one call of the fixture runs.
  \<^item> \<open>page_waitForSelector q st\<close> is \<open>page.waitForSelector(q)\<close> for \<open>st = None\<close> and
    \<open>page.waitForSelector(q, { state: st })\<close> otherwise; its value is not used by the caller.
  \<^item> \<open>page_waitForTimeout t\<close> is \<open>page.waitForTimeout(t)\<close>, \<open>None\<close> being \<open>undefined\<close>:
    the time at which the timer settles, and how.
  \<^item> \<open>page_query q\<close> is \<open>page.$(q)\<close>, \<open>None\<close> being \<open>null\<close>.
  \<^item> \<open>page_eval_checked q\<close> is \<open>page.$eval(q, (element) => element.checked)\<close>.
  \<^item> \<open>page_type q text delay\<close> is \<open>page.type(q, text, { delay })\<close>.
  \<^item> \<open>page_screenshot p\<close> is \<open>page.screenshot({ path: p })\<close>: the bytes written to \<open>p\<close>.
  \<^item> the \<open>el_\<close> fields are the methods of an element handle, \<open>prop_jsonValue\<close> the
    \<open>jsonValue()\<close> of a property handle.
\<close>

record page =
  page_waitForSelector :: "string \<Rightarrow> string option \<Rightarrow> unit promise"
  page_waitForTimeout :: "int option \<Rightarrow> nat \<times> (error + unit)"
  page_query :: "string \<Rightarrow> error + handle option"
  page_eval_checked :: "string \<Rightarrow> error + jsval"
  page_type :: "string \<Rightarrow> string \<Rightarrow> int \<Rightarrow> error + unit"
  page_screenshot :: "string \<Rightarrow> error + 8 word list"
  el_fill :: "handle \<Rightarrow> string \<Rightarrow> error + unit"
  el_press :: "handle \<Rightarrow> string \<Rightarrow> error + unit"
  el_textContent :: "handle \<Rightarrow> error + string option"
  el_click :: "handle \<Rightarrow> string list \<Rightarrow> string \<Rightarrow> error + unit"
  el_getProperty :: "handle \<Rightarrow> string \<Rightarrow> error + jshandle"
  prop_jsonValue :: "jshandle \<Rightarrow> error + jsval"
  el_check :: "handle \<Rightarrow> error + unit"
  el_uncheck :: "handle \<Rightarrow> error + unit"
  el_selectOption :: "handle \<Rightarrow> string \<Rightarrow> error + unit"

section \<open>Process state\<close>

text \<open>
  The state that the two modules read and write: the module variable \<open>formedSelector\<close> of
  the page fixture, the files of the report directory (path to content), and the lines
  sent to the logger.
\<close>

record world =
  formedSelector :: string
  files :: "string \<rightharpoonup> 8 word list"
  logs :: log

definition logger_info :: "string \<Rightarrow> world \<Rightarrow> world" where
  "logger_info m s = s\<lparr>logs := logs s @ [(Info, m)]\<rparr>"

definition logger_error :: "string \<Rightarrow> world \<Rightarrow> world" where
  "logger_error m s = s\<lparr>logs := logs s @ [(Error, m)]\<rparr>"

text \<open>\<open>try { ... } catch (error) { logger.error(m error); throw error }\<close>\<close>

definition catch_log_rethrow ::
  "(error \<Rightarrow> string) \<Rightarrow> (error + 'a) \<times> world \<Rightarrow> (error + 'a) \<times> world" where
  "catch_log_rethrow m r =
     (case r of (Inl e, s) \<Rightarrow> (Inl e, logger_error (m e) s) | (Inr v, s) \<Rightarrow> (Inr v, s))"

text \<open>\<open>try { ... } catch (error) { logger.error(m error) }\<close> around a body without a value.\<close>

definition catch_log_swallow ::
  "(error \<Rightarrow> string) \<Rightarrow> (error + unit) \<times> world \<Rightarrow> (error + unit) \<times> world" where
  "catch_log_swallow m r =
     (case r of (Inl e, s) \<Rightarrow> (Inr (), logger_error (m e) s) | (Inr v, s) \<Rightarrow> (Inr v, s))"

section \<open>The wait engine\<close>

text \<open>
  \<open>let defaultTimeout: 30000\<close> declares the variable with the literal type \<open>30000\<close> and gives
  it no initial value; nothing assigns to it, so its value is \<open>undefined\<close>.
\<close>

definition defaultTimeout :: "int option" where
  "defaultTimeout = None"

text \<open>
  \<open>timeoutMs !== undefined && timeoutMs > 0 ? timeoutMs : defaultTimeout\<close>, as written in
  \<open>waitForElementState\<close>, \<open>getElement\<close> and \<open>getElements\<close>.
\<close>

definition timeout_or_default :: "int option \<Rightarrow> int option" where
  "timeout_or_default timeoutMs =
     (case timeoutMs of
        None \<Rightarrow> defaultTimeout
      | Some t \<Rightarrow> if t > 0 then Some t else defaultTimeout)"

text \<open>
  \<open>await Promise.race([waitForSelectorPromise, page.waitForTimeout(timeout)])\<close>: the
  operation that settles first decides; when both settle at the same time the first
  element of the array does. The result is the time of return and the outcome; the value
  of a fulfilled operation is discarded by the caller.
\<close>

definition Promise_race :: "unit promise \<Rightarrow> nat \<times> (error + unit) \<Rightarrow> nat \<times> (error + unit)" where
  "Promise_race p timer =
     (case p of
        Never \<Rightarrow> timer
      | Settles t r \<Rightarrow> if t \<le> fst timer then (t, r) else timer)"

text \<open>
  \<open>waitForElementState\<close> returns its outcome, the time at which it returns, and the new
  state. The assignment to \<open>formedSelector\<close> happens only when \<open>formSelector\<close> succeeded.
  The \<open>switch\<close> compares the wait state with the three members in the order of the source;
  its \<open>default:\<close> branch raises before any engine operation is started.
\<close>

definition waitForElementState_error_line :: "string \<Rightarrow> ElementWaitState \<Rightarrow> string" where
  "waitForElementState_error_line selector waitState =
     ''Error occurred while waiting for element '' @ quoted selector
       @ '' with state '' @ quoted (String_number waitState) @ '':''"

definition waitForElementState ::
  "page \<Rightarrow> string \<Rightarrow> ElementWaitState \<Rightarrow> int option \<Rightarrow> world \<Rightarrow> (error + unit) \<times> nat \<times> world" where
  "waitForElementState pg selector waitState timeoutMs s =
     (let m = waitForElementState_error_line selector waitState
      in case formSelector selector of
           Inl e \<Rightarrow> (Inl e, 0, logger_error m s)
         | Inr f \<Rightarrow>
             (let s1 = s\<lparr>formedSelector := f\<rparr>;
                  timeout = timeout_or_default timeoutMs;
                  waitForSelectorPromise =
                    (if waitState = PRESENT then Inr (page_waitForSelector pg f None)
                     else if waitState = INVISIBLE then Inr (page_waitForSelector pg f (Some ''hidden''))
                     else if waitState = VISIBLE then Inr (page_waitForSelector pg f (Some ''visible''))
                     else Inl (new_Error ''Invalid waitState''))
              in case waitForSelectorPromise of
                   Inl e \<Rightarrow> (Inl e, 0, logger_error m s1)
                 | Inr p \<Rightarrow>
                     (case Promise_race p (page_waitForTimeout pg timeout) of
                        (t, Inl e) \<Rightarrow> (Inl e, t, logger_error m s1)
                      | (t, Inr _) \<Rightarrow> (Inr (), t, s1))))"

section \<open>Element access and the action wrappers\<close>

text \<open>\<open>waitState ?? ElementWaitState.VISIBLE\<close>\<close>

definition waitState_or_default :: "ElementWaitState option \<Rightarrow> ElementWaitState" where
  "waitState_or_default waitState = (case waitState of None \<Rightarrow> VISIBLE | Some w \<Rightarrow> w)"

text \<open>The two lines that \<open>getElement\<close> logs; both print the module variable.\<close>

definition getElement_found_line :: "string \<Rightarrow> string" where
  "getElement_found_line formed = ''Element with selector '' @ quoted formed @ '' has been found.''"

definition getElement_error_line :: "string \<Rightarrow> string" where
  "getElement_error_line formed = ''Error occurred while retrieving element '' @ quoted formed @ '':''"

definition getElement ::
  "page \<Rightarrow> string \<Rightarrow> ElementWaitState option \<Rightarrow> int option \<Rightarrow> world
     \<Rightarrow> (error + handle option) \<times> world" where
  "getElement pg selector waitState timeoutMs s =
     (let timeout = timeout_or_default timeoutMs;
          elementWaitState = waitState_or_default waitState
      in case waitForElementState pg selector elementWaitState timeout s of
           (Inl e, _, s1) \<Rightarrow> (Inl e, logger_error (getElement_error_line (formedSelector s1)) s1)
         | (Inr _, _, s1) \<Rightarrow>
             (case page_query pg (formedSelector s1) of
                Inl e \<Rightarrow> (Inl e, logger_error (getElement_error_line (formedSelector s1)) s1)
              | Inr element \<Rightarrow>
                  (Inr element, logger_info (getElement_found_line (formedSelector s1)) s1)))"

definition clearText ::
  "page \<Rightarrow> string \<Rightarrow> ElementWaitState option \<Rightarrow> int option \<Rightarrow> world \<Rightarrow> (error + unit) \<times> world" where
  "clearText pg selector waitState timeoutMs s =
     catch_log_rethrow
       (\<lambda>e. ''Error occurred while clearing text in element with selector '' @ quoted selector @ '':'')
       (case getElement pg selector waitState timeoutMs s of
          (Inl e, s1) \<Rightarrow> (Inl e, s1)
        | (Inr (Some element), s1) \<Rightarrow>
            (case el_fill pg element [] of
               Inl e \<Rightarrow> (Inl e, s1)
             | Inr _ \<Rightarrow> (Inr (), logger_info (''Cleared text in element with selector ''
                                               @ quoted selector @ ''.'') s1))
        | (Inr None, s1) \<Rightarrow>
            (Inl (new_Error (''Element with selector '' @ quoted selector @ '' not found.'')), s1))"

definition setText ::
  "page \<Rightarrow> string \<Rightarrow> string \<Rightarrow> int \<Rightarrow> int option \<Rightarrow> world \<Rightarrow> (error + unit) \<times> world" where
  "setText pg selector text delay timeoutMs s =
     catch_log_swallow (\<lambda>e. ''Error occurred while typing text: '' @ String_error e)
       (case waitForElementState pg selector VISIBLE timeoutMs s of
          (Inl e, _, s1) \<Rightarrow> (Inl e, s1)
        | (Inr _, _, s1) \<Rightarrow>
            (case clearText pg selector (Some VISIBLE) timeoutMs s1 of
               (Inl e, s2) \<Rightarrow> (Inl e, s2)
             | (Inr _, s2) \<Rightarrow>
                 (case page_type pg (formedSelector s2) text delay of
                    Inl e \<Rightarrow> (Inl e, s2)
                  | Inr _ \<Rightarrow> (Inr (), logger_info (''Typed the text on element with selector ''
                                                    @ quoted selector @ ''.'') s2))))"

definition keyPress ::
  "page \<Rightarrow> string \<Rightarrow> string \<Rightarrow> ElementWaitState option \<Rightarrow> int option \<Rightarrow> world
     \<Rightarrow> (error + unit) \<times> world" where
  "keyPress pg selector key waitState timeoutMs s =
     catch_log_rethrow (\<lambda>e. ''Error occurred while deleting a character: '' @ String_error e)
       (case getElement pg selector waitState timeoutMs s of
          (Inl e, s1) \<Rightarrow> (Inl e, s1)
        | (Inr (Some element), s1) \<Rightarrow>
            (case el_press pg element key of
               Inl e \<Rightarrow> (Inl e, s1)
             | Inr _ \<Rightarrow> (Inr (), logger_info (''Performed key operations in element with selector ''
                                               @ quoted selector @ ''.'') s1))
        | (Inr None, s1) \<Rightarrow>
            (Inl (new_Error (''Element with selector '' @ quoted selector @ '' not found.'')), s1))"

definition getText ::
  "page \<Rightarrow> string \<Rightarrow> ElementWaitState option \<Rightarrow> int option \<Rightarrow> world
     \<Rightarrow> (error + string option) \<times> world" where
  "getText pg selector waitState timeoutMs s =
     catch_log_rethrow
       (\<lambda>e. ''Error occurred while retrieving text content of element with selector ''
              @ quoted selector @ '':'')
       (case getElement pg selector waitState timeoutMs s of
          (Inl e, s1) \<Rightarrow> (Inl e, s1)
        | (Inr (Some element), s1) \<Rightarrow>
            (case el_textContent pg element of
               Inl e \<Rightarrow> (Inl e, s1)
             | Inr textContent \<Rightarrow>
                 (Inr textContent, logger_info (''Successfully fetched the text content of the selector ''
                                                 @ quoted selector) s1))
        | (Inr None, s1) \<Rightarrow>
            (Inl (new_Error (''Element with selector '' @ quoted selector @ '' not found.'')), s1))"

text \<open>\<open>click\<close> has no \<open>else\<close> branch: with \<open>element == null\<close> the \<open>try\<close> block ends normally.\<close>

definition click ::
  "page \<Rightarrow> string \<Rightarrow> string list \<Rightarrow> string \<Rightarrow> ElementWaitState option \<Rightarrow> int option \<Rightarrow> world
     \<Rightarrow> (error + unit) \<times> world" where
  "click pg selector modifiers button waitState timeoutMs s =
     catch_log_rethrow
       (\<lambda>e. ''Error occurred while clicking on element '' @ quoted selector @ '':'')
       (case getElement pg selector waitState timeoutMs s of
          (Inl e, s1) \<Rightarrow> (Inl e, s1)
        | (Inr (Some element), s1) \<Rightarrow>
            (case el_click pg element modifiers button of
               Inl e \<Rightarrow> (Inl e, s1)
             | Inr _ \<Rightarrow> (Inr (), logger_info (''Clicked on element with selector ''
                                               @ quoted selector @ ''.'') s1))
        | (Inr None, s1) \<Rightarrow> (Inr (), s1))"

text \<open>
  \<open>getPropertyValue\<close> does not test the element: \<open>element.getProperty\<close> on \<open>null\<close> is the
  TypeError of the runtime, which the \<open>catch\<close> logs and rethrows.
\<close>

definition getPropertyValue ::
  "page \<Rightarrow> string \<Rightarrow> string \<Rightarrow> ElementWaitState option \<Rightarrow> int option \<Rightarrow> world
     \<Rightarrow> (error + jsval) \<times> world" where
  "getPropertyValue pg selector attributeName waitState timeoutMs s =
     catch_log_rethrow
       (\<lambda>e. ''Error occurred while retrieving attribute '' @ quoted attributeName
              @ '' value for element '' @ quoted selector @ '':'')
       (case getElement pg selector waitState timeoutMs s of
          (Inl e, s1) \<Rightarrow> (Inl e, s1)
        | (Inr None, s1) \<Rightarrow>
            (Inl (Err ''TypeError''
                    (''Cannot read properties of null (reading '' @ quoted ''getProperty'' @ '')'')), s1)
        | (Inr (Some element), s1) \<Rightarrow>
            (case el_getProperty pg element attributeName of
               Inl e \<Rightarrow> (Inl e, s1)
             | Inr property \<Rightarrow>
                 (case prop_jsonValue pg property of
                    Inl e \<Rightarrow> (Inl e, s1)
                  | Inr propertyValue \<Rightarrow>
                      if propertyValue \<noteq> JNull then
                        (Inr propertyValue,
                         logger_info (''Successfully fetched the attribute '' @ quoted attributeName
                                       @ '' value for element with selector '' @ quoted selector @ ''.'') s1)
                      else
                        (Inl (new_Error (''Unable to fetch the attriubte for the element with selector ''
                                          @ quoted selector @ ''.'')), s1))))"

text \<open>
  \<open>isElementChecked\<close> obtains the element through \<open>getElement\<close> and then evaluates
  \<open>page.$eval(selector, ...)\<close> on the selector it was called with.
\<close>

definition isElementChecked ::
  "page \<Rightarrow> string \<Rightarrow> int option \<Rightarrow> world \<Rightarrow> (error + bool) \<times> world" where
  "isElementChecked pg selector timeoutMs s =
     catch_log_rethrow
       (\<lambda>e. ''Error occurred while checking check status of element with selector ''
              @ quoted selector @ '':'')
       (case getElement pg selector (Some VISIBLE) timeoutMs s of
          (Inl e, s1) \<Rightarrow> (Inl e, s1)
        | (Inr (Some element), s1) \<Rightarrow>
            (case page_eval_checked pg selector of
               Inl e \<Rightarrow> (Inl e, s1)
             | Inr isChecked \<Rightarrow>
                 if isChecked = JBool True then
                   (Inr True, logger_info (''Element with selector '' @ quoted selector
                                            @ '' is checked.'') s1)
                 else
                   (Inr False, logger_info (''Element with selector '' @ quoted selector
                                             @ '' is not checked.'') s1))
        | (Inr None, s1) \<Rightarrow>
            (Inl (new_Error (''Element with selector '' @ quoted selector @ '' was not present.'')), s1))"

definition selectCheckbox ::
  "page \<Rightarrow> string \<Rightarrow> ElementWaitState option \<Rightarrow> int option \<Rightarrow> world \<Rightarrow> (error + unit) \<times> world" where
  "selectCheckbox pg selector waitState timeoutMs s =
     catch_log_swallow
       (\<lambda>e. ''Error occurred while selecting checkbox with selector '' @ quoted selector @ '':'')
       (case getElement pg selector waitState timeoutMs s of
          (Inl e, s1) \<Rightarrow> (Inl e, s1)
        | (Inr (Some element), s1) \<Rightarrow>
            (case el_check pg element of
               Inl e \<Rightarrow> (Inl e, s1)
             | Inr _ \<Rightarrow> (Inr (), logger_info (''Checkbox with selector '' @ quoted selector
                                               @ '' has been selected.'') s1))
        | (Inr None, s1) \<Rightarrow> (Inr (), s1))"

definition unselectCheckbox ::
  "page \<Rightarrow> string \<Rightarrow> ElementWaitState option \<Rightarrow> int option \<Rightarrow> world \<Rightarrow> (error + unit) \<times> world" where
  "unselectCheckbox pg selector waitState timeoutMs s =
     catch_log_swallow
       (\<lambda>e. ''Error occurred while unselecting checkbox with selector '' @ quoted selector @ '':'')
       (case getElement pg selector waitState timeoutMs s of
          (Inl e, s1) \<Rightarrow> (Inl e, s1)
        | (Inr (Some element), s1) \<Rightarrow>
            (case el_uncheck pg element of
               Inl e \<Rightarrow> (Inl e, s1)
             | Inr _ \<Rightarrow> (Inr (), logger_info (''Checkbox with selector '' @ quoted selector
                                               @ '' has been unselected.'') s1))
        | (Inr None, s1) \<Rightarrow> (Inr (), s1))"

definition selectDropdownOption ::
  "page \<Rightarrow> string \<Rightarrow> string \<Rightarrow> ElementWaitState option \<Rightarrow> int option \<Rightarrow> world
     \<Rightarrow> (error + unit) \<times> world" where
  "selectDropdownOption pg selector option waitState timeoutMs s =
     catch_log_swallow
       (\<lambda>e. ''Error occurred while selecting option '' @ quoted option
              @ '' from dropdown with selector '' @ quoted selector @ '':'')
       (case getElement pg selector waitState timeoutMs s of
          (Inl e, s1) \<Rightarrow> (Inl e, s1)
        | (Inr (Some element), s1) \<Rightarrow>
            (let optionSelector = ''option[value='' @ [dq] @ option @ [dq] @ ''], option[label=''
                                    @ [dq] @ option @ [dq] @ '']''
             in case el_selectOption pg element optionSelector of
                  Inl e \<Rightarrow> (Inl e, s1)
                | Inr _ \<Rightarrow> (Inr (), logger_info (''Selected option '' @ quoted option
                                                  @ '' from dropdown with selector ''
                                                  @ quoted selector @ ''.'') s1))
        | (Inr None, s1) \<Rightarrow> (Inr (), s1))"

section \<open>The visual regression module\<close>

text \<open>
  A decoded PNG image as the module uses it: \<open>width\<close>, \<open>height\<close> and the pixel buffer
  \<open>data\<close>.
\<close>

record image =
  width :: nat
  height :: nat
  data :: "8 word list"

text \<open>\<open>new PNG.PNG({ width, height })\<close>: a zero-filled buffer of four bytes per pixel.\<close>

definition new_PNG :: "nat \<Rightarrow> nat \<Rightarrow> image" where
  "new_PNG w h = \<lparr>width = w, height = h, data = replicate (4 * w * h) 0\<rparr>"

text \<open>
  What the module takes from its surroundings:
  \<^item> \<open>reportPath\<close> is \<open>settings.reportPath\<close> (it depends on \<open>__dirname\<close>);
  \<^item> \<open>clock_year\<close>, \<open>clock_month\<close> and \<open>clock_day\<close> are the UTC date that \<open>new Date()\<close>
    gives while the call runs;
  \<^item> \<open>fs_writable p\<close> says whether the file system accepts a write to \<open>p\<close>;
  \<^item> \<open>png_read\<close> and \<open>png_write\<close> are \<open>PNG.PNG.sync.read\<close> and \<open>PNG.PNG.sync.write\<close>;
  \<^item> \<open>pixelmatch img1 img2 output width height threshold\<close> is the library call: it raises,
    or returns the number of differing pixels and the contents it left in \<open>output\<close>.
\<close>

record env =
  reportPath :: string
  clock_year :: nat
  clock_month :: nat
  clock_day :: nat
  fs_writable :: "string \<Rightarrow> bool"
  png_read :: "8 word list \<Rightarrow> error + image"
  png_write :: "image \<Rightarrow> error + 8 word list"
  pixelmatch :: "8 word list \<Rightarrow> 8 word list \<Rightarrow> 8 word list \<Rightarrow> nat \<Rightarrow> nat \<Rightarrow> rat
                   \<Rightarrow> error + nat \<times> 8 word list"

text \<open>The \<open>settings\<close> object.\<close>

definition baselineDir :: string where
  "baselineDir = ''baseline''"

definition currentDir :: string where
  "currentDir = ''current''"

definition diffDir :: string where
  "diffDir = ''diff''"

definition threshold :: rat where
  "threshold = 1 / 10"

text \<open>
  \<open>new Date().toISOString().split('T')[0]\<close>: the year with four digits (six digits after
  a plus sign beyond the year 9999), the month and the day with two digits each.
\<close>

fun pad :: "nat \<Rightarrow> nat \<Rightarrow> string" where
  "pad 0 n = []"
| "pad (Suc k) n = pad k (n div 10) @ [digit_char n]"

definition currentDate :: "env \<Rightarrow> string" where
  "currentDate ev =
     (if clock_year ev \<le> 9999 then pad 4 (clock_year ev) else CHR ''+'' # pad 6 (clock_year ev))
       @ ''-'' @ pad 2 (clock_month ev) @ ''-'' @ pad 2 (clock_day ev)"

text \<open>
  \<open>path.join\<close> on a POSIX system. The arguments that are not empty are joined with the
  separator and the result is normalised: empty segments and \<open>.\<close> segments are dropped, a
  \<open>..\<close> segment removes the segment before it (or stays, in a relative path that has
  nothing left to remove), and a trailing separator is kept. A file is identified by its
  normalised path.
\<close>

fun split_path :: "string \<Rightarrow> string list" where
  "split_path [] = [[]]"
| "split_path (c # cs) =
     (if c = CHR ''/'' then [] # split_path cs
      else (case split_path cs of [] \<Rightarrow> [[c]] | seg # segs \<Rightarrow> (c # seg) # segs))"

fun join_path :: "string list \<Rightarrow> string" where
  "join_path [] = []"
| "join_path [seg] = seg"
| "join_path (seg # segs) = seg @ ''/'' @ join_path segs"

fun normalizeString :: "bool \<Rightarrow> string list \<Rightarrow> string list \<Rightarrow> string list" where
  "normalizeString allowAboveRoot res [] = res"
| "normalizeString allowAboveRoot res (seg # segs) =
     (if seg = [] \<or> seg = ''.'' then normalizeString allowAboveRoot res segs
      else if seg = ''..'' then
        (if res \<noteq> [] \<and> last res \<noteq> ''..'' then normalizeString allowAboveRoot (butlast res) segs
         else if allowAboveRoot then normalizeString allowAboveRoot (res @ [''..'']) segs
         else normalizeString allowAboveRoot res segs)
      else normalizeString allowAboveRoot (res @ [seg]) segs)"

definition path_normalize :: "string \<Rightarrow> string" where
  "path_normalize p =
     (if p = [] then ''.''
      else
        (let isAbsolute = (hd p = CHR ''/'');
             trailingSeparator = (last p = CHR ''/'');
             res = join_path (normalizeString (\<not> isAbsolute) [] (split_path p))
         in if res = [] then (if isAbsolute then ''/'' else if trailingSeparator then ''./'' else ''.'')
            else (if isAbsolute then ''/'' else []) @ res @ (if trailingSeparator then ''/'' else [])))"

definition path_join :: "string \<Rightarrow> string \<Rightarrow> string \<Rightarrow> string" where
  "path_join a b c =
     (let joined = join_path (filter (\<lambda>arg. arg \<noteq> []) [a, b, c])
      in if joined = [] then ''.'' else path_normalize joined)"

definition baselineImage_path :: "env \<Rightarrow> string \<Rightarrow> string" where
  "baselineImage_path ev testName =
     path_join (reportPath ev) baselineDir (testName @ ''-baseline.png'')"

definition currentImage_name :: "env \<Rightarrow> string \<Rightarrow> string" where
  "currentImage_name ev testName = testName @ ''-current-'' @ currentDate ev @ ''.png''"

definition currentImage_path :: "env \<Rightarrow> string \<Rightarrow> string" where
  "currentImage_path ev testName =
     path_join (reportPath ev) currentDir (currentImage_name ev testName)"

definition diffImage_path :: "env \<Rightarrow> string \<Rightarrow> string" where
  "diffImage_path ev testName =
     path_join (reportPath ev) diffDir (testName @ ''-diff-'' @ currentDate ev @ ''.png'')"

text \<open>
  The file-system calls of the module, on the files of the state: reading or copying a
  file that does not exist raises, and so does a write that the file system refuses.
\<close>

definition fs_existsSync :: "string \<Rightarrow> world \<Rightarrow> bool" where
  "fs_existsSync p s = (files s p \<noteq> None)"

definition fs_readFileSync :: "string \<Rightarrow> world \<Rightarrow> error + 8 word list" where
  "fs_readFileSync p s =
     (case files s p of
        None \<Rightarrow> Inl (new_Error (''ENOENT: no such file or directory, open '' @ quoted p))
      | Some b \<Rightarrow> Inr b)"

definition fs_writeFileSync :: "env \<Rightarrow> string \<Rightarrow> 8 word list \<Rightarrow> world \<Rightarrow> error + world" where
  "fs_writeFileSync ev p b s =
     (if fs_writable ev p then Inr (s\<lparr>files := (files s)(p \<mapsto> b)\<rparr>)
      else Inl (new_Error (''EACCES: permission denied, open '' @ quoted p)))"

definition fs_copyFileSync :: "env \<Rightarrow> string \<Rightarrow> string \<Rightarrow> world \<Rightarrow> error + world" where
  "fs_copyFileSync ev src dest s =
     (case files s src of
        None \<Rightarrow>
          Inl (new_Error (''ENOENT: no such file or directory, copyfile '' @ quoted src
                            @ '' -> '' @ quoted dest))
      | Some b \<Rightarrow>
          if fs_writable ev dest then Inr (s\<lparr>files := (files s)(dest \<mapsto> b)\<rparr>)
          else Inl (new_Error (''EACCES: permission denied, copyfile '' @ quoted src
                                 @ '' -> '' @ quoted dest)))"

definition captureScreenshot :: "page \<Rightarrow> env \<Rightarrow> string \<Rightarrow> world \<Rightarrow> (error + unit) \<times> world" where
  "captureScreenshot pg ev filename s =
     catch_log_rethrow (\<lambda>e. ''Error while capturing screenshot: '' @ String_error e)
       (let screenshotPath = path_join (reportPath ev) currentDir filename
        in case page_screenshot pg screenshotPath of
             Inl e \<Rightarrow> (Inl e, s)
           | Inr b \<Rightarrow>
               (Inr (), logger_info (''Successfully captured screenshot: '' @ filename)
                          (s\<lparr>files := (files s)(screenshotPath \<mapsto> b)\<rparr>)))"

text \<open>\<open>createBaselineImage(page, testName, timeout = 2000)\<close>; \<open>None\<close> is the omitted argument.\<close>

definition createBaselineImage ::
  "page \<Rightarrow> env \<Rightarrow> string \<Rightarrow> int option \<Rightarrow> world \<Rightarrow> (error + unit) \<times> world" where
  "createBaselineImage pg ev testName timeoutArg s =
     catch_log_swallow (\<lambda>e. ''Error while creating baseline image: '' @ String_error e)
       (let timeout = (case timeoutArg of None \<Rightarrow> 2000 | Some t \<Rightarrow> t);
            baselineImage = baselineImage_path ev testName;
            currentImage = currentImage_path ev testName
        in case snd (page_waitForTimeout pg (Some timeout)) of
             Inl e \<Rightarrow> (Inl e, s)
           | Inr _ \<Rightarrow>
               (case captureScreenshot pg ev (currentImage_name ev testName) s of
                  (Inl e, s1) \<Rightarrow> (Inl e, s1)
                | (Inr _, s1) \<Rightarrow>
                    (let s2 = logger_info (''No baseline image found for '' @ testName
                                @ ''. Saving the current screenshot as baseline.'') s1
                     in case fs_copyFileSync ev currentImage baselineImage s2 of
                          Inl e \<Rightarrow> (Inl e, s2)
                        | Inr s3 \<Rightarrow> (Inr (), s3))))"

text \<open>
  The \<open>try\<close> block of \<open>compareScreenshots\<close>: every step may raise; the only write is the
  last step.
\<close>

definition compareScreenshots_try ::
  "env \<Rightarrow> string \<Rightarrow> string \<Rightarrow> string \<Rightarrow> world \<Rightarrow> error + bool \<times> world" where
  "compareScreenshots_try ev image1 image2 diffImage s =
     (case fs_readFileSync image1 s of
        Inl e \<Rightarrow> Inl e
      | Inr b1 \<Rightarrow>
     (case png_read ev b1 of
        Inl e \<Rightarrow> Inl e
      | Inr img1 \<Rightarrow>
     (case fs_readFileSync image2 s of
        Inl e \<Rightarrow> Inl e
      | Inr b2 \<Rightarrow>
     (case png_read ev b2 of
        Inl e \<Rightarrow> Inl e
      | Inr img2 \<Rightarrow>
     (let diff = new_PNG (width img1) (height img1)
      in case pixelmatch ev (data img1) (data img2) (data diff) (width img1) (height img1) threshold of
           Inl e \<Rightarrow> Inl e
         | Inr (numDiffPixels, diffData) \<Rightarrow>
     (case png_write ev (diff\<lparr>data := diffData\<rparr>) of
        Inl e \<Rightarrow> Inl e
      | Inr bytes \<Rightarrow>
     (case fs_writeFileSync ev diffImage bytes s of
        Inl e \<Rightarrow> Inl e
      | Inr s1 \<Rightarrow> Inr (numDiffPixels = 0, s1))))))))"

text \<open>\<open>catch (error) { logger.error(...); return false }\<close> around it.\<close>

definition compareScreenshots ::
  "env \<Rightarrow> string \<Rightarrow> string \<Rightarrow> string \<Rightarrow> world \<Rightarrow> (error + bool) \<times> world" where
  "compareScreenshots ev image1 image2 diffImage s =
     (case compareScreenshots_try ev image1 image2 diffImage s of
        Inl e \<Rightarrow> (Inr False, logger_error (''Error while comparing screenshots: '' @ String_error e) s)
      | Inr (identical, s1) \<Rightarrow> (Inr identical, s1))"

text \<open>
  \<open>runVisualTests(page, testName, timeout = 2000)\<close>. The call of \<open>createBaselineImage\<close>
  passes no timeout.
\<close>

definition runVisualTests ::
  "page \<Rightarrow> env \<Rightarrow> string \<Rightarrow> int option \<Rightarrow> world \<Rightarrow> (error + unit) \<times> world" where
  "runVisualTests pg ev testName timeoutArg s =
     catch_log_swallow (\<lambda>e. ''Error while running visual tests: '' @ String_error e)
       (let timeout = (case timeoutArg of None \<Rightarrow> 2000 | Some t \<Rightarrow> t);
            baselineImage = baselineImage_path ev testName;
            currentImage = currentImage_path ev testName;
            diffImage = diffImage_path ev testName
        in if \<not> fs_existsSync baselineImage s then createBaselineImage pg ev testName None s
           else
             (case snd (page_waitForTimeout pg (Some timeout)) of
                Inl e \<Rightarrow> (Inl e, s)
              | Inr _ \<Rightarrow>
                  (case captureScreenshot pg ev (currentImage_name ev testName) s of
                     (Inl e, s1) \<Rightarrow> (Inl e, s1)
                   | (Inr _, s1) \<Rightarrow>
                       (case compareScreenshots ev baselineImage currentImage diffImage s1 of
                          (Inl e, s2) \<Rightarrow> (Inl e, s2)
                        | (Inr isIdentical, s2) \<Rightarrow>
                            if \<not> isIdentical then
                              (Inr (), logger_error (''Visual difference detected for '' @ testName
                                         @ ''. Check '' @ diffImage @ '' for differences.'') s2)
                            else (Inr (), s2)))))"

section \<open>Notions used to state the properties\<close>

text \<open>The wait states of the enumeration.\<close>

definition valid_waitState :: "ElementWaitState \<Rightarrow> bool" where
  "valid_waitState w = (w = PRESENT \<or> w = VISIBLE \<or> w = INVISIBLE)"

text \<open>
  The second argument that \<open>waitForElementState\<close> gives to \<open>page.waitForSelector\<close> for a
  wait state of the enumeration.
\<close>

definition waitState_option :: "ElementWaitState \<Rightarrow> string option" where
  "waitState_option w =
     (if w = PRESENT then None else if w = INVISIBLE then Some ''hidden'' else Some ''visible'')"

text \<open>The race that a call with translated selector \<open>q\<close> runs.\<close>

definition wait_race :: "page \<Rightarrow> string \<Rightarrow> ElementWaitState \<Rightarrow> int option \<Rightarrow> nat \<times> (error + unit)" where
  "wait_race pg q w timeoutMs =
     Promise_race (page_waitForSelector pg q (waitState_option w))
                  (page_waitForTimeout pg (timeout_or_default timeoutMs))"

text \<open>An operation that has not settled at time \<open>t\<close> nor before: it settles later or never.\<close>

definition pending_until :: "nat \<Rightarrow> 'a promise \<Rightarrow> bool" where
  "pending_until t p = (case p of Never \<Rightarrow> True | Settles u r \<Rightarrow> t < u)"

text \<open>The last segment of a path: what follows its last separator.\<close>

definition basename :: "string \<Rightarrow> string" where
  "basename p = rev (takeWhile (\<lambda>c. c \<noteq> CHR ''/'') (rev p))"

text \<open>The error that the wrappers raise for an absent element.\<close>

definition not_found :: "string \<Rightarrow> error" where
  "not_found selector = Err ''Error'' (''Element with selector '' @ quoted selector @ '' not found.'')"

section \<open>A page and an environment for the examples\<close>

text \<open>
  A page with one checkbox: the query \<open>[data-testid="agree"]\<close> finds it (it becomes visible
  after 10 ms), no other query finds anything, and no other wait ever settles. The timer
  settles after the number of milliseconds it is given, at once for \<open>undefined\<close>. Evaluating
  \<open>checked\<close> succeeds for the CSS selector \<open>#agree\<close> only.
\<close>

definition agree_query :: string where
  "agree_query = ''[data-testid='' @ [dq] @ ''agree'' @ [dq] @ '']''"

definition demo_shot :: "8 word list" where
  "demo_shot = [2, 1, 0, 0, 0, 255, 255, 255, 255, 255]"

definition demo_page :: page where
  "demo_page =
     \<lparr>page_waitForSelector = (\<lambda>q st. if q = agree_query then Settles 10 (Inr ()) else Never),
      page_waitForTimeout = (\<lambda>t. (case t of None \<Rightarrow> 0 | Some n \<Rightarrow> nat n, Inr ())),
      page_query = (\<lambda>q. if q = agree_query then Inr (Some 7) else Inr None),
      page_eval_checked =
        (\<lambda>q. if q = ''#agree'' then Inr (JBool True)
             else Inl (Err ''Error'' ''failed to find element matching selector'')),
      page_type = (\<lambda>q text delay. Inr ()),
      page_screenshot = (\<lambda>p. Inr demo_shot),
      el_fill = (\<lambda>h v. Inr ()),
      el_press = (\<lambda>h k. Inr ()),
      el_textContent = (\<lambda>h. Inr (Some ''I agree'')),
      el_click = (\<lambda>h ms b. Inr ()),
      el_getProperty = (\<lambda>h a. Inr 1),
      prop_jsonValue = (\<lambda>h. Inr (JBool True)),
      el_check = (\<lambda>h. Inr ()),
      el_uncheck = (\<lambda>h. Inr ()),
      el_selectOption = (\<lambda>h opt. Inr ())\<rparr>"

text \<open>
  The example page as an engine with its own selector timeout shows it: nothing on it ever
  satisfies a condition, and every condition wait is rejected with a timeout error after
  30000 ms.
\<close>

definition timeout_page :: page where
  "timeout_page =
     demo_page\<lparr>page_waitForSelector :=
       (\<lambda>q st. Settles 30000 (Inl (Err ''TimeoutError'' ''page.waitForSelector: Timeout 30000ms exceeded.'')))\<rparr>"


text \<open>
  A toy image codec (first byte the width, second the height, then the pixel buffer) and a
  toy comparer that rejects buffers of unequal length, as the pixel comparison library does,
  and counts the positions that differ otherwise.
\<close>

definition demo_read :: "8 word list \<Rightarrow> error + image" where
  "demo_read b =
     (case b of
        w # h # d \<Rightarrow> Inr \<lparr>width = unat w, height = unat h, data = d\<rparr>
      | _ \<Rightarrow> Inl (Err ''Error'' ''Invalid file signature''))"

definition demo_write :: "image \<Rightarrow> error + 8 word list" where
  "demo_write img = Inr (word_of_nat (width img) # word_of_nat (height img) # data img)"

definition demo_pixelmatch ::
  "8 word list \<Rightarrow> 8 word list \<Rightarrow> 8 word list \<Rightarrow> nat \<Rightarrow> nat \<Rightarrow> rat \<Rightarrow> error + nat \<times> 8 word list" where
  "demo_pixelmatch img1 img2 output w h thr =
     (if length img1 \<noteq> length img2 \<or> length output \<noteq> length img1
      then Inl (Err ''Error'' ''Image sizes do not match.'')
      else Inr (length (filter (\<lambda>(a, b). a \<noteq> b) (zip img1 img2)), output))"

definition demo_env :: env where
  "demo_env =
     \<lparr>reportPath = ''reports/visual-tests'',
      clock_year = 2024,
      clock_month = 1,
      clock_day = 15,
      fs_writable = (\<lambda>p. True),
      png_read = demo_read,
      png_write = demo_write,
      pixelmatch = demo_pixelmatch\<rparr>"

text \<open>The state at the start: nothing translated, nothing logged, no files.\<close>

definition world0 :: world where
  "world0 = \<lparr>formedSelector = [], files = Map.empty, logs = []\<rparr>"


section \<open>Properties of the selector translation\<close>

text \<open>
  Claim C6. For every selector of the form \<open>#X\<close>, \<open>formSelector\<close> succeeds and returns the
  attribute-equality query on \<open>data-testid\<close> in which the remainder \<open>X\<close> stands unchanged:
  the characters \<open>[data-testid="\<close>, then \<open>X\<close> exactly, then \<open>"]\<close>.
\<close>

theorem formSelector_marker:
  "formSelector (CHR ''#'' # X) = Inr (''[data-testid='' @ [dq] @ X @ [dq] @ '']'')"
  by (simp add: formSelector_def startsWith_def)

text \<open>
  Claim C7. For every selector that matches the structural-query pattern (it begins with
  \<open>//\<close> or with an opening parenthesis), \<open>formSelector\<close> returns its input unchanged.
\<close>

theorem formSelector_structural:
  assumes "xpathPattern_test s"
  shows "formSelector s = Inr s"
proof -
  from assms have "\<not> startsWith s ''#''"
    by (cases s) (auto simp: xpathPattern_test_def startsWith_def)
  with assms show ?thesis
    by (simp add: formSelector_def)
qed

theorem formSelector_structural_witness:
  "xpathPattern_test ''//div[@id=1]'' \<and> formSelector ''//div[@id=1]'' = Inr ''//div[@id=1]''
   \<and> xpathPattern_test ''(//a)[2]'' \<and> formSelector ''(//a)[2]'' = Inr ''(//a)[2]''"
  using formSelector_structural [of "''//div[@id=1]''"] formSelector_structural [of "''(//a)[2]''"]
  by (simp add: xpathPattern_test_def startsWith_def)

text \<open>
  Claim C8. For every selector that neither starts with \<open>#\<close> nor matches the
  structural-query pattern, \<open>formSelector\<close> fails, and the error it raises carries the
  offending selector in its message; no other interpretation of the selector is tried.
\<close>

theorem formSelector_invalid:
  assumes "\<not> startsWith s ''#''" and "\<not> xpathPattern_test s"
  shows "formSelector s = Inl (Err ''Error'' (''Invalid selector format: '' @ s))"
  using assms by (simp add: formSelector_def new_Error_def)

theorem formSelector_invalid_witness:
  "\<not> startsWith ''submit-btn'' ''#'' \<and> \<not> xpathPattern_test ''submit-btn''
   \<and> formSelector ''submit-btn'' = Inl (Err ''Error'' ''Invalid selector format: submit-btn'')"
  using formSelector_invalid [of "''submit-btn''"]
  by (simp add: xpathPattern_test_def startsWith_def)

section \<open>Facts about the wait engine and element access\<close>

lemma timeout_or_default_idem:
  "timeout_or_default (timeout_or_default t) = timeout_or_default t"
  by (simp add: timeout_or_default_def defaultTimeout_def split: option.splits)

lemma wait_race_idem: "wait_race pg q w (timeout_or_default t) = wait_race pg q w t"
  by (simp add: wait_race_def timeout_or_default_idem)

lemma Promise_race_pending:
  "pending_until (fst timer) p \<Longrightarrow> Promise_race p timer = timer"
  by (cases p) (auto simp: Promise_race_def pending_until_def)

lemma Promise_race_Inl:
  "Promise_race p timer = (t, Inl e) \<Longrightarrow> p = Settles t (Inl e) \<or> timer = (t, Inl e)"
  by (cases p) (auto simp: Promise_race_def split: if_splits)

lemma Promise_race_rejected_first:
  "u \<le> fst timer \<Longrightarrow> Promise_race (Settles u r) timer = (u, r)"
  by (simp add: Promise_race_def)

lemma valid_waitState_VISIBLE [simp]: "valid_waitState VISIBLE"
  by (simp add: valid_waitState_def)

text \<open>The wait engine, with the translation and the race named.\<close>

lemma waitForElementState_unfold:
  "waitForElementState pg selector w t s =
     (case formSelector selector of
        Inl e \<Rightarrow> (Inl e, 0, logger_error (waitForElementState_error_line selector w) s)
      | Inr q \<Rightarrow>
          if valid_waitState w then
            (case wait_race pg q w t of
               (u, Inl e) \<Rightarrow> (Inl e, u, logger_error (waitForElementState_error_line selector w)
                                          (s\<lparr>formedSelector := q\<rparr>))
             | (u, Inr _) \<Rightarrow> (Inr (), u, s\<lparr>formedSelector := q\<rparr>))
          else (Inl (new_Error ''Invalid waitState''), 0,
                logger_error (waitForElementState_error_line selector w) (s\<lparr>formedSelector := q\<rparr>)))"
  by (cases "formSelector selector")
     (auto simp add: waitForElementState_def wait_race_def waitState_option_def Let_def
        valid_waitState_def PRESENT_def VISIBLE_def INVISIBLE_def)

text \<open>Element access: one translation, one race, one query with the translated selector.\<close>

lemma getElement_unfold:
  "getElement pg selector w t s =
     (case formSelector selector of
        Inl e \<Rightarrow>
          (Inl e, logger_error (getElement_error_line (formedSelector s))
                    (logger_error (waitForElementState_error_line selector (waitState_or_default w)) s))
      | Inr q \<Rightarrow>
          if valid_waitState (waitState_or_default w) then
            (case snd (wait_race pg q (waitState_or_default w) t) of
               Inl e \<Rightarrow>
                 (Inl e, logger_error (getElement_error_line q)
                           (logger_error (waitForElementState_error_line selector (waitState_or_default w))
                              (s\<lparr>formedSelector := q\<rparr>)))
             | Inr _ \<Rightarrow>
                 (case page_query pg q of
                    Inl e \<Rightarrow> (Inl e, logger_error (getElement_error_line q) (s\<lparr>formedSelector := q\<rparr>))
                  | Inr el \<Rightarrow> (Inr el, logger_info (getElement_found_line q) (s\<lparr>formedSelector := q\<rparr>))))
          else
            (Inl (new_Error ''Invalid waitState''),
             logger_error (getElement_error_line q)
               (logger_error (waitForElementState_error_line selector (waitState_or_default w))
                  (s\<lparr>formedSelector := q\<rparr>))))"
proof (cases "formSelector selector")
  case (Inl e)
  then show ?thesis
    by (simp add: getElement_def Let_def waitForElementState_unfold logger_error_def)
next
  case valid: (Inr q)
  show ?thesis
  proof (cases "valid_waitState (waitState_or_default w)")
    case False
    with valid show ?thesis
      by (simp add: getElement_def Let_def waitForElementState_unfold logger_error_def)
  next
    case True
    obtain u r where wr: "wait_race pg q (waitState_or_default w) t = (u, r)"
      by (cases "wait_race pg q (waitState_or_default w) t")
    show ?thesis
    proof (cases r)
      case (Inl e)
      with valid True wr show ?thesis
        by (simp add: getElement_def Let_def waitForElementState_unfold wait_race_idem logger_error_def)
    next
      case (Inr x)
      with valid True wr show ?thesis
        by (cases "page_query pg q")
           (simp_all add: getElement_def Let_def waitForElementState_unfold wait_race_idem)
    qed
  qed
qed

lemma getElement_found:
  assumes "fst (getElement pg selector w t s) = Inr el"
  obtains q u where "formSelector selector = Inr q"
    and "valid_waitState (waitState_or_default w)"
    and "wait_race pg q (waitState_or_default w) t = (u, Inr ())"
    and "page_query pg q = Inr el"
proof (cases "formSelector selector")
  case (Inl e)
  with assms show ?thesis by (simp add: getElement_unfold)
next
  case valid: (Inr q)
  from assms valid have v: "valid_waitState (waitState_or_default w)"
    by (simp add: getElement_unfold split: if_splits)
  obtain u r where wr: "wait_race pg q (waitState_or_default w) t = (u, r)"
    by (cases "wait_race pg q (waitState_or_default w) t")
  from assms valid v wr have "r = Inr ()" "page_query pg q = Inr el"
    by (cases r; simp add: getElement_unfold split: sum.splits)+
  with valid v wr that show ?thesis by blast
qed

section \<open>Properties of the wait engine\<close>

text \<open>
  Claim C1 as stated fails. On the page whose engine gives up a condition wait after 30000
  ms, the selector \<open>#submit-btn\<close> is valid and its condition is never satisfied, and a wait
  with a timeout of 60000 ms does not return normally: it fails after 30000 ms with the
  engine's timeout error.
\<close>

theorem waitForElementState_engine_timeout_counterexample:
  "formSelector ''#submit-btn'' = Inr (''[data-testid='' @ [dq] @ ''submit-btn'' @ [dq] @ '']'')
   \<and> page_waitForSelector timeout_page (''[data-testid='' @ [dq] @ ''submit-btn'' @ [dq] @ '']'')
        (Some ''visible'')
       = Settles 30000 (Inl (Err ''TimeoutError'' ''page.waitForSelector: Timeout 30000ms exceeded.''))
   \<and> page_waitForTimeout timeout_page (Some 60000) = (60000, Inr ())
   \<and> fst (waitForElementState timeout_page ''#submit-btn'' VISIBLE (Some 60000) world0)
       = Inl (Err ''TimeoutError'' ''page.waitForSelector: Timeout 30000ms exceeded.'')
   \<and> fst (snd (waitForElementState timeout_page ''#submit-btn'' VISIBLE (Some 60000) world0)) = 30000"
  by (simp add: waitForElementState_unfold formSelector_def startsWith_def wait_race_def
        Promise_race_def waitState_option_def timeout_or_default_def timeout_page_def
        demo_page_def valid_waitState_def PRESENT_def VISIBLE_def INVISIBLE_def)

text \<open>
  Claim C1 as amended. For every wait request whose selector is valid (\<open>formSelector\<close> gives
  \<open>q\<close>), whose wait state is one of the enumeration, and whose condition wait is still
  pending when the timer settles normally at time \<open>t\<close> (the engine has neither found the
  condition satisfied nor given the wait up by then), \<open>waitForElementState\<close> returns
  normally at time \<open>t\<close>: no error, a result without content, and a state that differs
  from the initial one in \<open>formedSelector\<close> only, so no line is logged either. When the
  engine rejects the condition wait no later than the timer settles (as with its own
  selector timeout), the call fails with the engine's error at that time. And whenever the
  call fails with an error \<open>e\<close>, then \<open>e\<close> is the error of \<open>formSelector\<close> for an invalid
  selector, or the error for a wait state outside the enumeration, or the error with which
  the engine rejected the condition wait or the timer.
\<close>

theorem waitForElementState_timeout_silent:
  "(formSelector selector = Inr q \<and> valid_waitState waitState
      \<and> pending_until t (page_waitForSelector pg q (waitState_option waitState))
      \<and> page_waitForTimeout pg (timeout_or_default timeoutMs) = (t, Inr ())
    \<longrightarrow> waitForElementState pg selector waitState timeoutMs s
          = (Inr (), t, s\<lparr>formedSelector := q\<rparr>))
   \<and> (\<forall>u e. formSelector selector = Inr q \<and> valid_waitState waitState
      \<and> page_waitForSelector pg q (waitState_option waitState) = Settles u (Inl e)
      \<and> u \<le> fst (page_waitForTimeout pg (timeout_or_default timeoutMs))
    \<longrightarrow> fst (waitForElementState pg selector waitState timeoutMs s) = Inl e
        \<and> fst (snd (waitForElementState pg selector waitState timeoutMs s)) = u)
   \<and> (\<forall>e. fst (waitForElementState pg selector waitState timeoutMs s) = Inl e
      \<longrightarrow> formSelector selector = Inl e
          \<or> (\<not> valid_waitState waitState \<and> e = Err ''Error'' ''Invalid waitState'')
          \<or> (\<exists>q u. formSelector selector = Inr q
                \<and> (page_waitForSelector pg q (waitState_option waitState) = Settles u (Inl e)
                    \<or> page_waitForTimeout pg (timeout_or_default timeoutMs) = (u, Inl e))))"
proof (intro conjI impI allI)
  assume h: "formSelector selector = Inr q \<and> valid_waitState waitState
      \<and> pending_until t (page_waitForSelector pg q (waitState_option waitState))
      \<and> page_waitForTimeout pg (timeout_or_default timeoutMs) = (t, Inr ())"
  then have "wait_race pg q waitState timeoutMs = (t, Inr ())"
    using Promise_race_pending [of "(t, Inr ())" "page_waitForSelector pg q (waitState_option waitState)"]
    by (simp add: wait_race_def)
  with h show "waitForElementState pg selector waitState timeoutMs s
          = (Inr (), t, s\<lparr>formedSelector := q\<rparr>)"
    by (simp add: waitForElementState_unfold)
next
  fix u e
  assume h: "formSelector selector = Inr q \<and> valid_waitState waitState
      \<and> page_waitForSelector pg q (waitState_option waitState) = Settles u (Inl e)
      \<and> u \<le> fst (page_waitForTimeout pg (timeout_or_default timeoutMs))"
  then have "wait_race pg q waitState timeoutMs = (u, Inl e)"
    by (simp add: wait_race_def Promise_race_rejected_first)
  with h show "fst (waitForElementState pg selector waitState timeoutMs s) = Inl e"
    and "fst (snd (waitForElementState pg selector waitState timeoutMs s)) = u"
    by (simp_all add: waitForElementState_unfold)
next
  fix e
  assume f: "fst (waitForElementState pg selector waitState timeoutMs s) = Inl e"
  show "formSelector selector = Inl e
          \<or> (\<not> valid_waitState waitState \<and> e = Err ''Error'' ''Invalid waitState'')
          \<or> (\<exists>q u. formSelector selector = Inr q
                \<and> (page_waitForSelector pg q (waitState_option waitState) = Settles u (Inl e)
                    \<or> page_waitForTimeout pg (timeout_or_default timeoutMs) = (u, Inl e)))"
  proof (cases "formSelector selector")
    case (Inl a)
    with f show ?thesis by (simp add: waitForElementState_unfold)
  next
    case valid: (Inr q')
    show ?thesis
    proof (cases "valid_waitState waitState")
      case False
      with f valid show ?thesis
        by (simp add: waitForElementState_unfold new_Error_def)
    next
      case True
      obtain u r where wr: "wait_race pg q' waitState timeoutMs = (u, r)"
        by (cases "wait_race pg q' waitState timeoutMs")
      with f valid True have "r = Inl e"
        by (cases r) (simp_all add: waitForElementState_unfold)
      with wr have "Promise_race (page_waitForSelector pg q' (waitState_option waitState))
                      (page_waitForTimeout pg (timeout_or_default timeoutMs)) = (u, Inl e)"
        by (simp add: wait_race_def)
      from Promise_race_Inl [OF this] valid show ?thesis by blast
    qed
  qed
qed

theorem waitForElementState_timeout_silent_witness:
  "formSelector ''#submit-btn'' = Inr (''[data-testid='' @ [dq] @ ''submit-btn'' @ [dq] @ '']'')
   \<and> valid_waitState VISIBLE
   \<and> pending_until 5000 (page_waitForSelector demo_page
        (''[data-testid='' @ [dq] @ ''submit-btn'' @ [dq] @ '']'') (waitState_option VISIBLE))
   \<and> page_waitForTimeout demo_page (timeout_or_default (Some 5000)) = (5000, Inr ())
   \<and> waitForElementState demo_page ''#submit-btn'' VISIBLE (Some 5000) world0
       = (Inr (), 5000, world0\<lparr>formedSelector := ''[data-testid='' @ [dq] @ ''submit-btn'' @ [dq] @ '']''\<rparr>)
   \<and> page_waitForSelector timeout_page (''[data-testid='' @ [dq] @ ''submit-btn'' @ [dq] @ '']'')
        (waitState_option VISIBLE)
       = Settles 30000 (Inl (Err ''TimeoutError'' ''page.waitForSelector: Timeout 30000ms exceeded.''))
   \<and> 30000 \<le> fst (page_waitForTimeout timeout_page (timeout_or_default (Some 60000)))
   \<and> fst (waitForElementState timeout_page ''#submit-btn'' VISIBLE (Some 60000) world0)
       = Inl (Err ''TimeoutError'' ''page.waitForSelector: Timeout 30000ms exceeded.'')
   \<and> fst (snd (waitForElementState timeout_page ''#submit-btn'' VISIBLE (Some 60000) world0)) = 30000
   \<and> fst (waitForElementState demo_page ''submit-btn'' VISIBLE (Some 5000) world0)
       = Inl (Err ''Error'' ''Invalid selector format: submit-btn'')
   \<and> formSelector ''submit-btn'' = Inl (Err ''Error'' ''Invalid selector format: submit-btn'')
   \<and> \<not> valid_waitState 7
   \<and> fst (waitForElementState demo_page ''#submit-btn'' 7 (Some 5000) world0)
       = Inl (Err ''Error'' ''Invalid waitState'')"
  using waitForElementState_timeout_silent
          [where selector = "''#submit-btn''" and pg = demo_page and waitState = VISIBLE
             and q = "''[data-testid='' @ [dq] @ ''submit-btn'' @ [dq] @ '']''"
             and timeoutMs = "Some 5000" and t = 5000 and s = world0]
        waitForElementState_timeout_silent
          [where selector = "''#submit-btn''" and pg = timeout_page and waitState = VISIBLE
             and q = "''[data-testid='' @ [dq] @ ''submit-btn'' @ [dq] @ '']''"
             and timeoutMs = "Some 60000" and s = world0]
        waitForElementState_timeout_silent
          [where selector = "''submit-btn''" and pg = demo_page and waitState = VISIBLE
             and timeoutMs = "Some 5000" and s = world0]
        waitForElementState_timeout_silent
          [where selector = "''#submit-btn''" and pg = demo_page and waitState = 7
             and timeoutMs = "Some 5000" and s = world0]
  by (simp add: formSelector_def startsWith_def xpathPattern_test_def new_Error_def
        pending_until_def demo_page_def timeout_page_def agree_query_def dq_def
        timeout_or_default_def waitForElementState_unfold wait_race_def Promise_race_def
        waitState_option_def valid_waitState_def PRESENT_def VISIBLE_def INVISIBLE_def)

text \<open>
  Claim C2, which the code does not meet. With \<open>timeoutMs\<close> absent or not positive the
  timer is started with the value of \<open>defaultTimeout\<close>, and that is \<open>undefined\<close>, not
  30000: on the example page, whose timer settles at once for \<open>undefined\<close>, a wait for an
  element that never appears returns at time 0.
\<close>

theorem default_timeout_is_undefined:
  "timeout_or_default None = None
   \<and> timeout_or_default (Some 0) = None
   \<and> timeout_or_default (Some (- 5)) = None
   \<and> timeout_or_default None \<noteq> Some 30000
   \<and> fst (snd (waitForElementState demo_page ''#submit-btn'' VISIBLE None world0)) = 0"
  by (simp add: timeout_or_default_def defaultTimeout_def waitForElementState_unfold
        formSelector_def startsWith_def wait_race_def Promise_race_def waitState_option_def
        demo_page_def agree_query_def dq_def)

section \<open>Properties of the action wrappers\<close>

lemma getElement_absent_again:
  assumes "fst (getElement pg selector w t s) = Inr None"
  shows "fst (getElement pg selector w t s') = Inr None"
proof -
  from assms obtain q u where "formSelector selector = Inr q"
    and "valid_waitState (waitState_or_default w)"
    and "wait_race pg q (waitState_or_default w) t = (u, Inr ())"
    and "page_query pg q = Inr None"
    by (rule getElement_found)
  then show ?thesis by (simp add: getElement_unfold)
qed

lemma getElement_waitState_cong:
  "waitState_or_default w = waitState_or_default w' \<Longrightarrow>
   getElement pg selector w t s = getElement pg selector w' t s"
  by (simp add: getElement_def Let_def)

lemma clearText_absent:
  assumes "fst (getElement pg selector w t s) = Inr None"
  shows "fst (clearText pg selector w t s) = Inl (not_found selector)"
  using assms
  by (cases "getElement pg selector w t s")
     (simp add: clearText_def catch_log_rethrow_def not_found_def new_Error_def)

lemma keyPress_absent:
  assumes "fst (getElement pg selector w t s) = Inr None"
  shows "fst (keyPress pg selector key w t s) = Inl (not_found selector)"
  using assms
  by (cases "getElement pg selector w t s")
     (simp add: keyPress_def catch_log_rethrow_def not_found_def new_Error_def)

lemma getText_absent:
  assumes "fst (getElement pg selector w t s) = Inr None"
  shows "fst (getText pg selector w t s) = Inl (not_found selector)"
  using assms
  by (cases "getElement pg selector w t s")
     (simp add: getText_def catch_log_rethrow_def not_found_def new_Error_def)

lemma getPropertyValue_absent:
  assumes "fst (getElement pg selector w t s) = Inr None"
  shows "\<exists>e. fst (getPropertyValue pg selector attributeName w t s) = Inl e"
  using assms
  by (cases "getElement pg selector w t s")
     (simp add: getPropertyValue_def catch_log_rethrow_def)

lemma click_absent:
  assumes "fst (getElement pg selector w t s) = Inr None"
  shows "click pg selector modifiers button w t s = (Inr (), snd (getElement pg selector w t s))"
  using assms
  by (cases "getElement pg selector w t s") (simp add: click_def catch_log_rethrow_def)

lemma selectCheckbox_absent:
  assumes "fst (getElement pg selector w t s) = Inr None"
  shows "selectCheckbox pg selector w t s = (Inr (), snd (getElement pg selector w t s))"
  using assms
  by (cases "getElement pg selector w t s") (simp add: selectCheckbox_def catch_log_swallow_def)

lemma unselectCheckbox_absent:
  assumes "fst (getElement pg selector w t s) = Inr None"
  shows "unselectCheckbox pg selector w t s = (Inr (), snd (getElement pg selector w t s))"
  using assms
  by (cases "getElement pg selector w t s") (simp add: unselectCheckbox_def catch_log_swallow_def)

lemma selectDropdownOption_absent:
  assumes "fst (getElement pg selector w t s) = Inr None"
  shows "selectDropdownOption pg selector option w t s = (Inr (), snd (getElement pg selector w t s))"
  using assms
  by (cases "getElement pg selector w t s")
     (simp add: selectDropdownOption_def catch_log_swallow_def)

lemma setText_never_raises: "fst (setText pg selector text delay timeoutMs s) = Inr ()"
  by (simp add: setText_def catch_log_swallow_def split: prod.splits sum.splits)

lemma logs_logger_error [simp]: "logs (logger_error m s) = logs s @ [(Error, m)]"
  by (simp add: logger_error_def)

lemma setText_absent_logged:
  assumes "fst (getElement pg selector (Some VISIBLE) t s) = Inr None"
  shows "last (logs (snd (setText pg selector text delay t s)))
         = (Error, ''Error occurred while typing text: '' @ String_error (not_found selector))"
proof -
  from assms obtain q u where valid: "formSelector selector = Inr q"
    and wr: "wait_race pg q (waitState_or_default (Some VISIBLE)) t = (u, Inr ())"
    and pq: "page_query pg q = Inr None"
    by (rule getElement_found)
  from wr have wr: "wait_race pg q VISIBLE t = (u, Inr ())"
    by (simp add: waitState_or_default_def)
  have w: "waitForElementState pg selector VISIBLE t s = (Inr (), u, s\<lparr>formedSelector := q\<rparr>)"
    using valid wr by (simp add: waitForElementState_unfold)
  have "fst (getElement pg selector (Some VISIBLE) t (s\<lparr>formedSelector := q\<rparr>)) = Inr None"
    using assms by (rule getElement_absent_again)
  then have "fst (clearText pg selector (Some VISIBLE) t (s\<lparr>formedSelector := q\<rparr>))
               = Inl (not_found selector)"
    by (rule clearText_absent)
  then show ?thesis
    using w
    by (cases "clearText pg selector (Some VISIBLE) t (s\<lparr>formedSelector := q\<rparr>)")
       (simp add: setText_def catch_log_swallow_def)
qed

text \<open>
  Claim C3 as stated fails: on the example page no element matches \<open>#missing\<close>, element
  access resolves it as absent, and yet \<open>click\<close> and \<open>setText\<close> return normally.
\<close>

theorem absent_click_setText_counterexample:
  "fst (getElement demo_page ''#missing'' None (Some 1000) world0) = Inr None
   \<and> fst (click demo_page ''#missing'' [] ''left'' None (Some 1000) world0) = Inr ()
   \<and> fst (getElement demo_page ''#missing'' (Some VISIBLE) (Some 1000) world0) = Inr None
   \<and> fst (setText demo_page ''#missing'' ''abc'' 0 (Some 1000) world0) = Inr ()"
proof -
  have a: "fst (getElement demo_page ''#missing'' w (Some 1000) world0) = Inr None"
    if "waitState_or_default w = VISIBLE" for w
    using that
    by (simp add: getElement_unfold formSelector_def startsWith_def wait_race_def
          Promise_race_def demo_page_def agree_query_def dq_def)
  have v: "waitState_or_default None = VISIBLE" "waitState_or_default (Some VISIBLE) = VISIBLE"
    by (simp_all add: waitState_or_default_def)
  from a [of None] v have "fst (click demo_page ''#missing'' [] ''left'' None (Some 1000) world0) = Inr ()"
    by (simp add: click_absent)
  with a v show ?thesis by (simp add: setText_never_raises)
qed

text \<open>
  Claim C3 as amended. For every selector whose element resolves as absent (\<open>getElement\<close>
  returns the absence marker): \<open>clearText\<close>, \<open>keyPress\<close> and \<open>getText\<close> raise the explicit
  not-found error naming the selector; \<open>getPropertyValue\<close> raises an error as well;
  \<open>click\<close>, \<open>selectCheckbox\<close>, \<open>unselectCheckbox\<close> and \<open>selectDropdownOption\<close> return
  normally and leave the state as \<open>getElement\<close> left it, so they log nothing about the
  absence; \<open>setText\<close> never raises, and for an element absent under the wait state
  \<open>VISIBLE\<close> its last log line is the error line that carries the not-found error of
  \<open>clearText\<close>.
\<close>

theorem absent_element_policy:
  assumes "fst (getElement pg selector waitState timeoutMs s) = Inr None"
  shows "fst (clearText pg selector waitState timeoutMs s) = Inl (not_found selector)
    \<and> fst (keyPress pg selector key waitState timeoutMs s) = Inl (not_found selector)
    \<and> fst (getText pg selector waitState timeoutMs s) = Inl (not_found selector)
    \<and> (\<exists>e. fst (getPropertyValue pg selector attributeName waitState timeoutMs s) = Inl e)
    \<and> click pg selector modifiers button waitState timeoutMs s
        = (Inr (), snd (getElement pg selector waitState timeoutMs s))
    \<and> selectCheckbox pg selector waitState timeoutMs s
        = (Inr (), snd (getElement pg selector waitState timeoutMs s))
    \<and> unselectCheckbox pg selector waitState timeoutMs s
        = (Inr (), snd (getElement pg selector waitState timeoutMs s))
    \<and> selectDropdownOption pg selector option waitState timeoutMs s
        = (Inr (), snd (getElement pg selector waitState timeoutMs s))
    \<and> fst (setText pg selector text delay timeoutMs s) = Inr ()
    \<and> (waitState_or_default waitState = VISIBLE \<longrightarrow>
         last (logs (snd (setText pg selector text delay timeoutMs s)))
           = (Error, ''Error occurred while typing text: '' @ String_error (not_found selector)))"
proof -
  have "fst (getElement pg selector (Some VISIBLE) timeoutMs s) = Inr None"
    if "waitState_or_default waitState = VISIBLE"
    using assms getElement_waitState_cong [of waitState "Some VISIBLE" pg selector timeoutMs s] that
    by (simp add: waitState_or_default_def)
  then show ?thesis
    using assms
    by (simp add: clearText_absent keyPress_absent getText_absent getPropertyValue_absent
          click_absent selectCheckbox_absent unselectCheckbox_absent selectDropdownOption_absent
          setText_never_raises setText_absent_logged)
qed

theorem absent_element_policy_witness:
  "fst (getElement demo_page ''#missing'' None (Some 1000) world0) = Inr None
   \<and> fst (clearText demo_page ''#missing'' None (Some 1000) world0) = Inl (not_found ''#missing'')
   \<and> fst (keyPress demo_page ''#missing'' ''Enter'' None (Some 1000) world0) = Inl (not_found ''#missing'')
   \<and> fst (getText demo_page ''#missing'' None (Some 1000) world0) = Inl (not_found ''#missing'')
   \<and> (\<exists>e. fst (getPropertyValue demo_page ''#missing'' ''value'' None (Some 1000) world0) = Inl e)
   \<and> fst (click demo_page ''#missing'' [] ''left'' None (Some 1000) world0) = Inr ()
   \<and> fst (selectCheckbox demo_page ''#missing'' None (Some 1000) world0) = Inr ()
   \<and> fst (unselectCheckbox demo_page ''#missing'' None (Some 1000) world0) = Inr ()
   \<and> fst (selectDropdownOption demo_page ''#missing'' ''red'' None (Some 1000) world0) = Inr ()
   \<and> fst (setText demo_page ''#missing'' ''abc'' 0 (Some 1000) world0) = Inr ()
   \<and> last (logs (snd (setText demo_page ''#missing'' ''abc'' 0 (Some 1000) world0)))
       = (Error, ''Error occurred while typing text: '' @ String_error (not_found ''#missing''))"
proof -
  have a: "fst (getElement demo_page ''#missing'' None (Some 1000) world0) = Inr None"
    by (simp add: getElement_unfold formSelector_def startsWith_def wait_race_def
          Promise_race_def demo_page_def agree_query_def dq_def valid_waitState_def
          waitState_or_default_def PRESENT_def VISIBLE_def INVISIBLE_def split: option.splits)
  from absent_element_policy [OF a, of "''Enter''" "''value''" "[]" "''left''" "''red''" "''abc''" 0] a
  show ?thesis by (simp add: waitState_or_default_def)
qed

text \<open>
  Claim C10. \<open>isElementChecked\<close> fails with the error of \<open>formSelector\<close> for an invalid
  selector. For every selector that \<open>formSelector\<close> translates to \<open>q\<close>, it waits for the
  state \<open>VISIBLE\<close> with the translated \<open>q\<close> and fails if that wait is rejected, it queries
  the page with \<open>q\<close> and fails if the query fails or finds no element, and only then it
  reads \<open>checked\<close> by evaluating on the page under the selector exactly as the caller gave
  it; the module variable holds \<open>q\<close> afterwards. In particular, for a short-form selector
  \<open>#X\<close> the element is waited for and resolved with \<open>[data-testid="X"]\<close> and the property
  is read with the string \<open>#X\<close>, and the two strings differ.
\<close>

theorem isElementChecked_reads_raw_selector:
  "(\<forall>e. formSelector selector = Inl e \<longrightarrow>
       fst (isElementChecked pg selector timeoutMs s) = Inl e)
   \<and> (\<forall>q. formSelector selector = Inr q \<longrightarrow>
       fst (isElementChecked pg selector timeoutMs s)
         = (case snd (wait_race pg q VISIBLE timeoutMs) of
              Inl e \<Rightarrow> Inl e
            | Inr _ \<Rightarrow>
                (case page_query pg q of
                   Inl e \<Rightarrow> Inl e
                 | Inr None \<Rightarrow>
                     Inl (Err ''Error'' (''Element with selector '' @ quoted selector
                                           @ '' was not present.''))
                 | Inr (Some element) \<Rightarrow>
                     (case page_eval_checked pg selector of
                        Inl e \<Rightarrow> Inl e
                      | Inr isChecked \<Rightarrow> Inr (isChecked = JBool True))))
       \<and> formedSelector (snd (isElementChecked pg selector timeoutMs s)) = q
       \<and> (\<forall>X. selector = CHR ''#'' # X \<longrightarrow>
             q = ''[data-testid='' @ [dq] @ X @ [dq] @ '']'' \<and> q \<noteq> selector))"
proof (intro conjI allI impI)
  fix e
  assume "formSelector selector = Inl e"
  then show "fst (isElementChecked pg selector timeoutMs s) = Inl e"
    by (simp add: isElementChecked_def catch_log_rethrow_def getElement_unfold)
next
  fix q
  assume q: "formSelector selector = Inr q"
  obtain u r where wr: "wait_race pg q VISIBLE timeoutMs = (u, r)"
    by (cases "wait_race pg q VISIBLE timeoutMs")
  have g: "getElement pg selector (Some VISIBLE) timeoutMs s =
      (case r of
         Inl e \<Rightarrow>
           (Inl e, logger_error (getElement_error_line q)
                     (logger_error (waitForElementState_error_line selector VISIBLE)
                        (s\<lparr>formedSelector := q\<rparr>)))
       | Inr _ \<Rightarrow>
           (case page_query pg q of
              Inl e \<Rightarrow> (Inl e, logger_error (getElement_error_line q) (s\<lparr>formedSelector := q\<rparr>))
            | Inr el \<Rightarrow> (Inr el, logger_info (getElement_found_line q) (s\<lparr>formedSelector := q\<rparr>))))"
    using q wr
    by (cases r; cases "page_query pg q")
       (simp_all add: getElement_unfold waitState_or_default_def)
  show "fst (isElementChecked pg selector timeoutMs s)
         = (case snd (wait_race pg q VISIBLE timeoutMs) of
              Inl e \<Rightarrow> Inl e
            | Inr _ \<Rightarrow>
                (case page_query pg q of
                   Inl e \<Rightarrow> Inl e
                 | Inr None \<Rightarrow>
                     Inl (Err ''Error'' (''Element with selector '' @ quoted selector
                                           @ '' was not present.''))
                 | Inr (Some element) \<Rightarrow>
                     (case page_eval_checked pg selector of
                        Inl e \<Rightarrow> Inl e
                      | Inr isChecked \<Rightarrow> Inr (isChecked = JBool True))))"
    by (simp add: isElementChecked_def catch_log_rethrow_def g wr new_Error_def
          split: sum.splits option.splits)
  show "formedSelector (snd (isElementChecked pg selector timeoutMs s)) = q"
    by (simp add: isElementChecked_def catch_log_rethrow_def g logger_error_def logger_info_def
          split: sum.splits option.splits)
  fix X
  assume "selector = CHR ''#'' # X"
  with q show "q = ''[data-testid='' @ [dq] @ X @ [dq] @ '']''" and "q \<noteq> selector"
    by (auto simp add: formSelector_def startsWith_def)
qed

theorem isElementChecked_reads_raw_selector_witness:
  "formSelector ''#agree'' = Inr agree_query
   \<and> snd (wait_race demo_page agree_query VISIBLE (Some 1000)) = Inr ()
   \<and> page_query demo_page agree_query = Inr (Some 7)
   \<and> page_eval_checked demo_page ''#agree'' = Inr (JBool True)
   \<and> page_eval_checked demo_page agree_query \<noteq> Inr (JBool True)
   \<and> fst (isElementChecked demo_page ''#agree'' (Some 1000) world0) = Inr True
   \<and> formedSelector (snd (isElementChecked demo_page ''#agree'' (Some 1000) world0)) = agree_query
   \<and> agree_query \<noteq> ''#agree''
   \<and> fst (isElementChecked demo_page ''#missing'' (Some 1000) world0)
       = Inl (Err ''Error'' (''Element with selector '' @ quoted ''#missing'' @ '' was not present.''))
   \<and> formSelector ''agree'' = Inl (Err ''Error'' ''Invalid selector format: agree'')
   \<and> fst (isElementChecked demo_page ''agree'' (Some 1000) world0)
       = Inl (Err ''Error'' ''Invalid selector format: agree'')"
proof -
  have f: "formSelector ''#agree'' = Inr agree_query"
    by (simp add: formSelector_def startsWith_def agree_query_def)
  define mq where "mq = ''[data-testid='' @ [dq] @ ''missing'' @ [dq] @ '']''"
  have m: "formSelector ''#missing'' = Inr mq"
    by (simp add: formSelector_def startsWith_def mq_def)
  have pm: "page_query demo_page mq = Inr None"
    by (simp add: demo_page_def agree_query_def mq_def dq_def)
  have i: "formSelector ''agree'' = Inl (Err ''Error'' ''Invalid selector format: agree'')"
    by (simp add: formSelector_def startsWith_def xpathPattern_test_def new_Error_def)
  have w: "snd (wait_race demo_page q VISIBLE (Some 1000)) = Inr ()" for q
    by (simp add: wait_race_def Promise_race_def demo_page_def timeout_or_default_def)
  have p: "page_query demo_page agree_query = Inr (Some 7)"
    "page_eval_checked demo_page ''#agree'' = Inr (JBool True)"
    "page_eval_checked demo_page agree_query \<noteq> Inr (JBool True)"
    by (simp_all add: demo_page_def agree_query_def dq_def)
  note a = isElementChecked_reads_raw_selector
             [where selector = "''#agree''" and pg = demo_page and timeoutMs = "Some 1000"
                and s = world0, THEN conjunct2, rule_format, OF f]
  note b = isElementChecked_reads_raw_selector
             [where selector = "''#missing''" and pg = demo_page and timeoutMs = "Some 1000"
                and s = world0, THEN conjunct2, rule_format, OF m]
  note c = isElementChecked_reads_raw_selector
             [where selector = "''agree''" and pg = demo_page and timeoutMs = "Some 1000"
                and s = world0, THEN conjunct1, rule_format, OF i]
  from a have 1: "fst (isElementChecked demo_page ''#agree'' (Some 1000) world0) = Inr True"
    and 2: "formedSelector (snd (isElementChecked demo_page ''#agree'' (Some 1000) world0)) = agree_query"
    and 3: "agree_query \<noteq> ''#agree''"
    by (simp_all add: w p)
  from b have 4: "fst (isElementChecked demo_page ''#missing'' (Some 1000) world0)
       = Inl (Err ''Error'' (''Element with selector '' @ quoted ''#missing'' @ '' was not present.''))"
    by (simp add: w pm)
  from f w [of agree_query] p 1 2 3 4 i c show ?thesis
    by (intro conjI)
qed

section \<open>Facts about paths\<close>

text \<open>
  The last segment of a joined path is the last segment of its last argument, when that is
  a proper file name: normalisation can remove or change earlier segments only.
\<close>

lemma split_path_nonempty [simp]: "split_path p \<noteq> []"
  by (induction p) (auto split: list.splits)

lemma split_path_no_slash: "CHR ''/'' \<notin> set p \<Longrightarrow> split_path p = [p]"
  by (induction p) auto

lemma split_path_append:
  "split_path (x @ CHR ''/'' # y) = split_path x @ split_path y"
  by (induction x) (auto split: list.splits)

lemma basename_no_slash: "CHR ''/'' \<notin> set (basename p)"
  unfolding basename_def using set_takeWhileD by fastforce

lemma takeWhile_no_slash:
  "CHR ''/'' \<notin> set y \<Longrightarrow> takeWhile (\<lambda>c. c \<noteq> CHR ''/'') (rev y @ z) = rev y @ takeWhile (\<lambda>c. c \<noteq> CHR ''/'') z"
  by (rule takeWhile_append2) auto

lemma basename_append:
  "CHR ''/'' \<notin> set y \<Longrightarrow> basename (x @ y) = basename x @ y"
  by (simp add: basename_def takeWhile_no_slash)

lemma basename_slash: "basename (x @ [CHR ''/'']) = []"
  by (simp add: basename_def)

lemma basename_after_slash:
  assumes "CHR ''/'' \<notin> set y" and "pre = [] \<or> last pre = CHR ''/''"
  shows "basename (pre @ y) = y"
proof (cases pre rule: rev_cases)
  case Nil
  with assms(1) basename_append [of y "[]"] show ?thesis
    by (simp add: basename_def)
next
  case (snoc x c)
  with assms(2) have "c = CHR ''/''" by simp
  with snoc assms(1) basename_append [of y "x @ [CHR ''/'']"] show ?thesis
    by (simp add: basename_def)
qed

lemma basename_self: "CHR ''/'' \<notin> set p \<Longrightarrow> basename p = p"
  using basename_after_slash [of p "[]"] by simp

lemma path_decompose:
  "\<exists>pre. p = pre @ basename p \<and> (pre = [] \<or> last pre = CHR ''/'')"
proof (cases "CHR ''/'' \<in> set p")
  case False
  then have "basename p = p"
    by (rule basename_self)
  then show ?thesis by simp
next
  case True
  then obtain x y where p: "p = x @ CHR ''/'' # y" and y: "CHR ''/'' \<notin> set y"
    by (meson split_list_last)
  then have "basename p = y"
    using basename_after_slash [of y "x @ [CHR ''/'']"] by simp
  with p show ?thesis by (intro exI [of _ "x @ [CHR ''/'']"]) simp
qed

lemma split_path_last: "last (split_path p) = basename p"
proof -
  obtain pre where p: "p = pre @ basename p" and pre: "pre = [] \<or> last pre = CHR ''/''"
    using path_decompose by blast
  show ?thesis
  proof (cases "pre = []")
    case True
    with p have "CHR ''/'' \<notin> set p" using basename_no_slash [of p] by simp
    with p True show ?thesis by (simp add: split_path_no_slash)
  next
    case False
    with pre obtain x where "pre = x @ [CHR ''/'']"
      by (metis append_butlast_last_id)
    with p have "split_path p = split_path x @ split_path (basename p)"
      using split_path_append [of x "basename p"] by simp
    then show ?thesis
      by (simp add: split_path_no_slash basename_no_slash)
  qed
qed

lemma basename_prefix:
  assumes "x = [] \<or> last x = CHR ''/''"
  shows "basename (x @ c) = basename c"
proof -
  obtain pre where c: "c = pre @ basename c" and pre: "pre = [] \<or> last pre = CHR ''/''"
    using path_decompose by blast
  from assms pre have "x @ pre = [] \<or> last (x @ pre) = CHR ''/''"
    by (cases "pre = []") auto
  from basename_after_slash [OF basename_no_slash this, of c] c show ?thesis
    by simp
qed

lemma normalizeString_append:
  "normalizeString a res (xs @ ys) = normalizeString a (normalizeString a res xs) ys"
  by (induction a res xs rule: normalizeString.induct) auto

lemma normalizeString_last:
  assumes "seg \<noteq> []" and "seg \<noteq> ''.''" and "seg \<noteq> ''..''"
  shows "normalizeString a res (segs @ [seg]) = normalizeString a res segs @ [seg]"
  using assms by (simp add: normalizeString_append)

lemma join_path_snoc:
  "join_path (r @ [seg]) = (if r = [] then seg else join_path r @ CHR ''/'' # seg)"
  by (induction r rule: join_path.induct) simp_all

lemma basename_path_normalize:
  assumes "basename p \<noteq> []" and "basename p \<noteq> ''.''" and "basename p \<noteq> ''..''"
  shows "basename (path_normalize p) = basename p"
proof -
  from assms(1) have ne: "p \<noteq> []"
    by (auto simp: basename_def)
  have trail: "last p \<noteq> CHR ''/''"
  proof
    assume "last p = CHR ''/''"
    with ne have "p = butlast p @ [CHR ''/'']"
      by (metis append_butlast_last_id)
    with basename_slash [of "butlast p"] assms(1) show False by simp
  qed
  have "split_path p = butlast (split_path p) @ [basename p]"
    using split_path_last [of p] split_path_nonempty [of p]
    by (metis append_butlast_last_id)
  then obtain segs where "split_path p = segs @ [basename p]" ..
  then have norm: "normalizeString a [] (split_path p) = normalizeString a [] segs @ [basename p]" for a
    using assms by (simp add: normalizeString_last)
  define r where "r = normalizeString (hd p \<noteq> CHR ''/'') [] segs"
  define pre where "pre = (if r = [] then [] else join_path r @ [CHR ''/''])"
  have res: "join_path (normalizeString (hd p \<noteq> CHR ''/'') [] (split_path p)) = pre @ basename p"
    by (simp add: norm r_def [symmetric] join_path_snoc pre_def)
  have pre: "pre = [] \<or> last pre = CHR ''/''"
    by (simp add: pre_def)
  define pre' where "pre' = (if hd p = CHR ''/'' then ''/'' else []) @ pre"
  from pre have pre': "pre' = [] \<or> last pre' = CHR ''/''"
    by (auto simp: pre'_def)
  from ne trail res assms(1) have "path_normalize p = pre' @ basename p"
    by (simp add: path_normalize_def Let_def pre'_def)
  with basename_after_slash [OF basename_no_slash pre', of p] show ?thesis
    by simp
qed

lemma basename_path_join:
  assumes "basename c \<noteq> []" and "basename c \<noteq> ''.''" and "basename c \<noteq> ''..''"
  shows "basename (path_join a b c) = basename c"
proof -
  from assms(1) have c: "c \<noteq> []"
    by (auto simp: basename_def)
  define joined where "joined = join_path (filter (\<lambda>arg. arg \<noteq> []) [a, b, c])"
  have "\<exists>x. joined = x @ c \<and> (x = [] \<or> last x = CHR ''/'')"
  proof (cases "a = []"; cases "b = []")
    assume "a = []" "b = []"
    with c show ?thesis by (simp add: joined_def)
  next
    assume "a = []" "b \<noteq> []"
    with c show ?thesis
      by (intro exI [of _ "b @ [CHR ''/'']"]) (simp add: joined_def)
  next
    assume "a \<noteq> []" "b = []"
    with c show ?thesis
      by (intro exI [of _ "a @ [CHR ''/'']"]) (simp add: joined_def)
  next
    assume "a \<noteq> []" "b \<noteq> []"
    with c show ?thesis
      by (intro exI [of _ "a @ CHR ''/'' # b @ [CHR ''/'']"]) (simp add: joined_def)
  qed
  then obtain x where j: "joined = x @ c" and x: "x = [] \<or> last x = CHR ''/''"
    by blast
  from basename_prefix [OF x, of c] j have b: "basename joined = basename c"
    by simp
  from j c have "joined \<noteq> []" by simp
  then have "path_join a b c = path_normalize joined"
    unfolding path_join_def joined_def [symmetric] Let_def by simp
  with basename_path_normalize [of joined] b assms show ?thesis
    by simp
qed

text \<open>The date has no separator in it and ends with a digit.\<close>

lemma digit_char_digit: "digit_char n \<in> set ''0123456789''"
proof -
  have "n mod 10 < length ''0123456789''" by simp
  then show ?thesis unfolding digit_char_def by (rule nth_mem)
qed

lemma pad_digits: "set (pad k n) \<subseteq> set ''0123456789''"
  using digit_char_digit by (induction k arbitrary: n) auto

lemma currentDate_no_slash: "CHR ''/'' \<notin> set (currentDate ev)"
  using pad_digits [of 4 "clock_year ev"] pad_digits [of 6 "clock_year ev"]
    pad_digits [of 2 "clock_month ev"] pad_digits [of 2 "clock_day ev"]
  by (auto simp add: currentDate_def)

lemma currentDate_last:
  "currentDate ev \<noteq> [] \<and> last (currentDate ev) \<in> set ''0123456789''"
proof -
  have "pad 2 n = [digit_char (n div 10), digit_char n]" for n
    by (simp add: numeral_2_eq_2)
  then have "currentDate ev \<noteq> []" and "last (currentDate ev) = digit_char (clock_day ev)"
    by (simp_all add: currentDate_def)
  with digit_char_digit [of "clock_day ev"] show ?thesis by simp
qed

text \<open>The file names of the three kinds of image, and why no two kinds coincide.\<close>

lemma basename_baseline:
  "basename (baselineImage_path ev name) = basename name @ ''-baseline.png''"
proof -
  have b: "basename (name @ ''-baseline.png'') = basename name @ ''-baseline.png''"
    by (rule basename_append) simp
  have "length (basename (name @ ''-baseline.png'')) \<ge> 13"
    by (simp add: b)
  then have "basename (name @ ''-baseline.png'') \<noteq> []"
    "basename (name @ ''-baseline.png'') \<noteq> ''.''"
    "basename (name @ ''-baseline.png'') \<noteq> ''..''"
    by auto
  from basename_path_join [OF this] b show ?thesis
    by (simp add: baselineImage_path_def)
qed

lemma basename_current:
  "basename (currentImage_path ev testName)
     = basename testName @ ''-current-'' @ currentDate ev @ ''.png''"
proof -
  have "CHR ''/'' \<notin> set (''-current-'' @ currentDate ev @ ''.png'')"
    using currentDate_no_slash [of ev] by simp
  from basename_append [OF this, of testName]
  have b: "basename (currentImage_name ev testName)
             = basename testName @ ''-current-'' @ currentDate ev @ ''.png''"
    by (simp add: currentImage_name_def)
  have "length (basename (currentImage_name ev testName)) \<ge> 13"
    by (simp add: b)
  then have "basename (currentImage_name ev testName) \<noteq> []"
    "basename (currentImage_name ev testName) \<noteq> ''.''"
    "basename (currentImage_name ev testName) \<noteq> ''..''"
    by auto
  from basename_path_join [OF this] b show ?thesis
    by (simp add: currentImage_path_def)
qed

lemma basename_diff:
  "basename (diffImage_path ev testName)
     = basename testName @ ''-diff-'' @ currentDate ev @ ''.png''"
proof -
  define n where "n = testName @ ''-diff-'' @ currentDate ev @ ''.png''"
  have "CHR ''/'' \<notin> set (''-diff-'' @ currentDate ev @ ''.png'')"
    using currentDate_no_slash [of ev] by simp
  from basename_append [OF this, of testName]
  have b: "basename n = basename testName @ ''-diff-'' @ currentDate ev @ ''.png''"
    by (simp add: n_def)
  have "length (basename n) \<ge> 10"
    by (simp add: b)
  then have "basename n \<noteq> []" "basename n \<noteq> ''.''" "basename n \<noteq> ''..''"
    by auto
  from basename_path_join [OF this] b show ?thesis
    by (simp add: diffImage_path_def n_def)
qed

lemma baseline_name_not_dated:
  "x @ ''-baseline.png'' \<noteq> y @ k @ currentDate ev @ ''.png''"
proof
  assume "x @ ''-baseline.png'' = y @ k @ currentDate ev @ ''.png''"
  then have "(x @ ''-baseline'') @ ''.png'' = (y @ k @ currentDate ev) @ ''.png''"
    by simp
  then have "x @ ''-baseline'' = y @ k @ currentDate ev"
    by (simp only: append_same_eq)
  then have "last (x @ ''-baseline'') = last (y @ k @ currentDate ev)"
    by simp
  with currentDate_last [of ev] have "CHR ''e'' \<in> set ''0123456789''"
    by simp
  then show False by simp
qed

lemma baseline_not_current: "baselineImage_path ev name \<noteq> currentImage_path ev testName"
proof
  assume "baselineImage_path ev name = currentImage_path ev testName"
  then have "basename (baselineImage_path ev name) = basename (currentImage_path ev testName)"
    by simp
  with baseline_name_not_dated [of "basename name" "basename testName" "''-current-''" ev]
  show False by (simp add: basename_baseline basename_current)
qed

lemma baseline_not_diff: "baselineImage_path ev name \<noteq> diffImage_path ev testName"
proof
  assume "baselineImage_path ev name = diffImage_path ev testName"
  then have "basename (baselineImage_path ev name) = basename (diffImage_path ev testName)"
    by simp
  with baseline_name_not_dated [of "basename name" "basename testName" "''-diff-''" ev]
  show False by (simp add: basename_baseline basename_diff)
qed

lemma current_not_diff: "currentImage_path ev name \<noteq> diffImage_path ev testName"
proof
  assume "currentImage_path ev name = diffImage_path ev testName"
  then have "basename (currentImage_path ev name) = basename (diffImage_path ev testName)"
    by simp
  then have "(basename name @ ''-current-'') @ (currentDate ev @ ''.png'')
               = (basename testName @ ''-diff-'') @ (currentDate ev @ ''.png'')"
    by (simp add: basename_current basename_diff)
  then have "basename name @ ''-current-'' = basename testName @ ''-diff-''"
    by (simp only: append_same_eq)
  then have "rev (basename name @ ''-current-'') = rev (basename testName @ ''-diff-'')"
    by simp
  then show False by simp
qed

section \<open>Properties of the visual regression module\<close>

lemma files_logger_info [simp]: "files (logger_info m s) = files s"
  by (simp add: logger_info_def)

lemma files_logger_error [simp]: "files (logger_error m s) = files s"
  by (simp add: logger_error_def)

text \<open>Which files each operation can change.\<close>

lemma captureScreenshot_files:
  "p \<noteq> path_join (reportPath ev) currentDir filename \<Longrightarrow>
   files (snd (captureScreenshot pg ev filename s)) p = files s p"
  by (simp add: captureScreenshot_def catch_log_rethrow_def Let_def split: sum.splits)

lemma compareScreenshots_try_files:
  "compareScreenshots_try ev image1 image2 diffImage s = Inr (identical, s1) \<Longrightarrow>
   p \<noteq> diffImage \<Longrightarrow> files s1 p = files s p"
  by (auto simp add: compareScreenshots_try_def fs_writeFileSync_def Let_def
        split: sum.splits prod.splits if_splits)

lemma compareScreenshots_files:
  "p \<noteq> diffImage \<Longrightarrow>
   files (snd (compareScreenshots ev image1 image2 diffImage s)) p = files s p"
  by (cases "compareScreenshots_try ev image1 image2 diffImage s")
     (auto simp add: compareScreenshots_def dest: compareScreenshots_try_files)

lemma compareScreenshots_result:
  "\<exists>identical. fst (compareScreenshots ev image1 image2 diffImage s) = Inr identical"
  by (cases "compareScreenshots_try ev image1 image2 diffImage s")
     (auto simp add: compareScreenshots_def)

lemma compareScreenshots_caught:
  "compareScreenshots_try ev image1 image2 diffImage s = Inl e \<Longrightarrow>
   compareScreenshots ev image1 image2 diffImage s
     = (Inr False, logger_error (''Error while comparing screenshots: '' @ String_error e) s)"
  by (simp add: compareScreenshots_def)

lemma createBaselineImage_files:
  "p \<noteq> currentImage_path ev testName \<Longrightarrow> p \<noteq> baselineImage_path ev testName \<Longrightarrow>
   files (snd (createBaselineImage pg ev testName timeoutArg s)) p = files s p"
proof -
  assume p: "p \<noteq> currentImage_path ev testName" "p \<noteq> baselineImage_path ev testName"
  obtain r s1 where c: "captureScreenshot pg ev (currentImage_name ev testName) s = (r, s1)"
    by (cases "captureScreenshot pg ev (currentImage_name ev testName) s")
  from p(1) captureScreenshot_files [of p ev "currentImage_name ev testName" pg s] c
  have "files s1 p = files s p"
    by (simp add: currentImage_path_def)
  with p(2) c show ?thesis
    by (auto simp add: createBaselineImage_def catch_log_swallow_def Let_def fs_copyFileSync_def
          split: sum.splits option.splits if_splits)
qed

lemma catch_log_swallow_result: "fst (catch_log_swallow m r) = Inr ()"
  by (simp add: catch_log_swallow_def split: prod.splits sum.splits)

lemma catch_log_swallow_Inr: "fst r = Inr v \<Longrightarrow> catch_log_swallow m r = r"
  by (cases r) (simp add: catch_log_swallow_def)

lemma createBaselineImage_result: "fst (createBaselineImage pg ev testName timeoutArg s) = Inr ()"
  by (simp add: createBaselineImage_def catch_log_swallow_result)

lemma runVisualTests_files:
  assumes "files (snd (runVisualTests pg ev testName timeoutArg s)) p \<noteq> files s p"
  shows "p = currentImage_path ev testName \<or> p = diffImage_path ev testName
         \<or> (p = baselineImage_path ev testName \<and> files s p = None)"
proof (cases "fs_existsSync (baselineImage_path ev testName) s")
  case False
  then have run: "runVisualTests pg ev testName timeoutArg s
                  = createBaselineImage pg ev testName None s"
    by (simp add: runVisualTests_def Let_def catch_log_swallow_Inr [OF createBaselineImage_result])
  from False have "files s (baselineImage_path ev testName) = None"
    by (simp add: fs_existsSync_def)
  with assms run createBaselineImage_files [of p ev testName pg None s] show ?thesis
    by auto
next
  case True
  obtain r s1 where c: "captureScreenshot pg ev (currentImage_name ev testName) s = (r, s1)"
    by (cases "captureScreenshot pg ev (currentImage_name ev testName) s")
  obtain r2 s2 where d: "compareScreenshots ev (baselineImage_path ev testName)
      (currentImage_path ev testName) (diffImage_path ev testName) s1 = (r2, s2)"
    by (cases "compareScreenshots ev (baselineImage_path ev testName)
      (currentImage_path ev testName) (diffImage_path ev testName) s1")
  have "files (snd (runVisualTests pg ev testName timeoutArg s)) p = files s p"
    if p: "p \<noteq> currentImage_path ev testName" "p \<noteq> diffImage_path ev testName"
  proof -
    from p(1) captureScreenshot_files [of p ev "currentImage_name ev testName" pg s] c
    have 1: "files s1 p = files s p"
      by (simp add: currentImage_path_def)
    from p(2) compareScreenshots_files [of p "diffImage_path ev testName" ev
        "baselineImage_path ev testName" "currentImage_path ev testName" s1] d
    have 2: "files s2 p = files s1 p" by simp
    from True c d 1 2 show ?thesis
      by (auto simp add: runVisualTests_def Let_def catch_log_swallow_def split: sum.splits)
  qed
  with assms show ?thesis by blast
qed

lemma replicate_eight: "replicate 8 x = [x, x, x, x, x, x, x, x]"
  by (simp add: eval_nat_numeral)

text \<open>
  Claim C4 as stated fails, in both of its parts. In the example environment a 1 x 1 and a
  2 x 1 image have unequal dimensions, the comparer rejects the pair, and
  \<open>compareScreenshots\<close> does not fail: it resolves with \<open>false\<close>. A 2 x 1 and a 1 x 2
  image with the same pixel bytes have unequal dimensions too, the comparer accepts their
  buffers of equal length, and \<open>compareScreenshots\<close> compares them, writes the diff
  artifact and resolves with \<open>true\<close>.
\<close>

theorem compareScreenshots_mismatch_counterexample:
  "png_read demo_env [1, 1, 0, 0, 0, 255] = Inr \<lparr>width = 1, height = 1, data = [0, 0, 0, 255]\<rparr>
   \<and> png_read demo_env [2, 1, 0, 0, 0, 255, 0, 0, 0, 255]
       = Inr \<lparr>width = 2, height = 1, data = [0, 0, 0, 255, 0, 0, 0, 255]\<rparr>
   \<and> png_read demo_env [1, 2, 0, 0, 0, 255, 0, 0, 0, 255]
       = Inr \<lparr>width = 1, height = 2, data = [0, 0, 0, 255, 0, 0, 0, 255]\<rparr>
   \<and> fst (compareScreenshots demo_env ''a.png'' ''b.png'' ''d.png''
            (world0\<lparr>files := [''a.png'' \<mapsto> [1, 1, 0, 0, 0, 255],
                               ''b.png'' \<mapsto> [2, 1, 0, 0, 0, 255, 0, 0, 0, 255]]\<rparr>))
       = Inr False
   \<and> fst (compareScreenshots demo_env ''b.png'' ''c.png'' ''d.png''
            (world0\<lparr>files := [''b.png'' \<mapsto> [2, 1, 0, 0, 0, 255, 0, 0, 0, 255],
                               ''c.png'' \<mapsto> [1, 2, 0, 0, 0, 255, 0, 0, 0, 255]]\<rparr>))
       = Inr True
   \<and> files (snd (compareScreenshots demo_env ''b.png'' ''c.png'' ''d.png''
            (world0\<lparr>files := [''b.png'' \<mapsto> [2, 1, 0, 0, 0, 255, 0, 0, 0, 255],
                               ''c.png'' \<mapsto> [1, 2, 0, 0, 0, 255, 0, 0, 0, 255]]\<rparr>))) ''d.png''
       = Some [2, 1, 0, 0, 0, 0, 0, 0, 0, 0]"
  by (simp add: compareScreenshots_def compareScreenshots_try_def fs_readFileSync_def
        fs_writeFileSync_def demo_env_def demo_read_def demo_write_def demo_pixelmatch_def
        new_PNG_def world0_def replicate_eight)

text \<open>
  Claim C4 as amended. For every pair of readable, decodable input images of unequal
  dimensions, \<open>compareScreenshots\<close> propagates no error: it resolves with a boolean. What
  it resolves with is decided by the pixel comparer, which gets the two pixel buffers and
  the width and height of the first image. When the comparer raises, the error is caught
  and logged, the call resolves with \<open>false\<close> and no file is written. When the comparer
  accepts the pair and the diff can be encoded and written, the diff artifact is written
  and the call resolves with whether no pixel differs; when the diff cannot be encoded or
  written, the call resolves with \<open>false\<close> and no file is written. With a comparer that rejects
  buffers of unequal length, and images whose buffers hold four bytes per pixel, the
  first case is the case of every pair with unequal pixel counts.
\<close>

theorem compareScreenshots_unequal_dimensions:
  assumes "files s image1 = Some b1" and "png_read ev b1 = Inr img1"
    and "files s image2 = Some b2" and "png_read ev b2 = Inr img2"
    and "width img1 \<noteq> width img2 \<or> height img1 \<noteq> height img2"
  shows "(\<exists>identical. fst (compareScreenshots ev image1 image2 diffImage s) = Inr identical)
    \<and> (\<forall>e. pixelmatch ev (data img1) (data img2) (data (new_PNG (width img1) (height img1)))
               (width img1) (height img1) threshold = Inl e \<longrightarrow>
          compareScreenshots ev image1 image2 diffImage s
            = (Inr False, logger_error (''Error while comparing screenshots: '' @ String_error e) s))
    \<and> (\<forall>numDiffPixels diffData bytes.
          pixelmatch ev (data img1) (data img2) (data (new_PNG (width img1) (height img1)))
            (width img1) (height img1) threshold = Inr (numDiffPixels, diffData)
          \<and> png_write ev ((new_PNG (width img1) (height img1))\<lparr>data := diffData\<rparr>) = Inr bytes
          \<and> fs_writable ev diffImage \<longrightarrow>
          compareScreenshots ev image1 image2 diffImage s
            = (Inr (numDiffPixels = 0), s\<lparr>files := (files s)(diffImage \<mapsto> bytes)\<rparr>))
    \<and> (\<forall>numDiffPixels diffData.
          pixelmatch ev (data img1) (data img2) (data (new_PNG (width img1) (height img1)))
            (width img1) (height img1) threshold = Inr (numDiffPixels, diffData)
          \<and> (\<forall>bytes. png_write ev ((new_PNG (width img1) (height img1))\<lparr>data := diffData\<rparr>) = Inr bytes
                \<longrightarrow> \<not> fs_writable ev diffImage) \<longrightarrow>
          fst (compareScreenshots ev image1 image2 diffImage s) = Inr False
          \<and> files (snd (compareScreenshots ev image1 image2 diffImage s)) = files s)
    \<and> ((\<forall>x y out w h thr. length x \<noteq> length y \<longrightarrow> (\<exists>e. pixelmatch ev x y out w h thr = Inl e))
        \<and> length (data img1) = 4 * width img1 * height img1
        \<and> length (data img2) = 4 * width img2 * height img2
        \<and> width img1 * height img1 \<noteq> width img2 * height img2 \<longrightarrow>
          fst (compareScreenshots ev image1 image2 diffImage s) = Inr False
          \<and> files (snd (compareScreenshots ev image1 image2 diffImage s)) = files s)"
proof -
  let ?cmp = "pixelmatch ev (data img1) (data img2) (data (new_PNG (width img1) (height img1)))
                (width img1) (height img1) threshold"
  have rejected: "compareScreenshots ev image1 image2 diffImage s
            = (Inr False, logger_error (''Error while comparing screenshots: '' @ String_error e) s)"
    if "?cmp = Inl e" for e
  proof -
    from assms(1-4) that have "compareScreenshots_try ev image1 image2 diffImage s = Inl e"
      by (simp add: compareScreenshots_try_def fs_readFileSync_def Let_def)
    then show ?thesis by (rule compareScreenshots_caught)
  qed
  have accepted: "compareScreenshots ev image1 image2 diffImage s
            = (Inr (n = 0), s\<lparr>files := (files s)(diffImage \<mapsto> bytes)\<rparr>)"
    if "?cmp = Inr (n, d) \<and> png_write ev ((new_PNG (width img1) (height img1))\<lparr>data := d\<rparr>) = Inr bytes
          \<and> fs_writable ev diffImage" for n d bytes
    using assms(1-4) that
    by (simp add: compareScreenshots_def compareScreenshots_try_def fs_readFileSync_def
          fs_writeFileSync_def Let_def)
  have unwritten: "fst (compareScreenshots ev image1 image2 diffImage s) = Inr False
          \<and> files (snd (compareScreenshots ev image1 image2 diffImage s)) = files s"
    if "?cmp = Inr (n, d)
        \<and> (\<forall>bytes. png_write ev ((new_PNG (width img1) (height img1))\<lparr>data := d\<rparr>) = Inr bytes
              \<longrightarrow> \<not> fs_writable ev diffImage)" for n d
    using assms(1-4) that
    by (cases "png_write ev ((new_PNG (width img1) (height img1))\<lparr>data := d\<rparr>)")
       (simp_all add: compareScreenshots_def compareScreenshots_try_def fs_readFileSync_def
          fs_writeFileSync_def Let_def)
  have guarded: "fst (compareScreenshots ev image1 image2 diffImage s) = Inr False
          \<and> files (snd (compareScreenshots ev image1 image2 diffImage s)) = files s"
    if g: "(\<forall>x y out w h thr. length x \<noteq> length y \<longrightarrow> (\<exists>e. pixelmatch ev x y out w h thr = Inl e))
        \<and> length (data img1) = 4 * width img1 * height img1
        \<and> length (data img2) = 4 * width img2 * height img2
        \<and> width img1 * height img1 \<noteq> width img2 * height img2"
  proof -
    from g have "length (data img1) \<noteq> length (data img2)"
      by (simp add: mult.assoc)
    with g obtain e where "?cmp = Inl e" by blast
    from rejected [OF this] show ?thesis by simp
  qed
  from compareScreenshots_result [of ev image1 image2 diffImage s] rejected accepted unwritten guarded
  show ?thesis by (intro conjI allI impI) blast+
qed

theorem compareScreenshots_unequal_dimensions_witness:
  "files (world0\<lparr>files := [''a.png'' \<mapsto> [1, 1, 0, 0, 0, 255],
                           ''b.png'' \<mapsto> [2, 1, 0, 0, 0, 255, 0, 0, 0, 255],
                           ''c.png'' \<mapsto> [1, 2, 0, 0, 0, 255, 0, 0, 0, 255]]\<rparr>) ''a.png''
     = Some [1, 1, 0, 0, 0, 255]
   \<and> png_read demo_env [1, 1, 0, 0, 0, 255] = Inr \<lparr>width = 1, height = 1, data = [0, 0, 0, 255]\<rparr>
   \<and> png_read demo_env [2, 1, 0, 0, 0, 255, 0, 0, 0, 255]
       = Inr \<lparr>width = 2, height = 1, data = [0, 0, 0, 255, 0, 0, 0, 255]\<rparr>
   \<and> png_read demo_env [1, 2, 0, 0, 0, 255, 0, 0, 0, 255]
       = Inr \<lparr>width = 1, height = 2, data = [0, 0, 0, 255, 0, 0, 0, 255]\<rparr>
   \<and> fst (compareScreenshots demo_env ''a.png'' ''b.png'' ''d.png''
            (world0\<lparr>files := [''a.png'' \<mapsto> [1, 1, 0, 0, 0, 255],
                               ''b.png'' \<mapsto> [2, 1, 0, 0, 0, 255, 0, 0, 0, 255],
                               ''c.png'' \<mapsto> [1, 2, 0, 0, 0, 255, 0, 0, 0, 255]]\<rparr>))
       = Inr False
   \<and> files (snd (compareScreenshots demo_env ''a.png'' ''b.png'' ''d.png''
            (world0\<lparr>files := [''a.png'' \<mapsto> [1, 1, 0, 0, 0, 255],
                               ''b.png'' \<mapsto> [2, 1, 0, 0, 0, 255, 0, 0, 0, 255],
                               ''c.png'' \<mapsto> [1, 2, 0, 0, 0, 255, 0, 0, 0, 255]]\<rparr>))) ''d.png''
       = None
   \<and> compareScreenshots demo_env ''b.png'' ''c.png'' ''d.png''
            (world0\<lparr>files := [''a.png'' \<mapsto> [1, 1, 0, 0, 0, 255],
                               ''b.png'' \<mapsto> [2, 1, 0, 0, 0, 255, 0, 0, 0, 255],
                               ''c.png'' \<mapsto> [1, 2, 0, 0, 0, 255, 0, 0, 0, 255]]\<rparr>)
       = (Inr True,
          world0\<lparr>files := [''a.png'' \<mapsto> [1, 1, 0, 0, 0, 255],
                            ''b.png'' \<mapsto> [2, 1, 0, 0, 0, 255, 0, 0, 0, 255],
                            ''c.png'' \<mapsto> [1, 2, 0, 0, 0, 255, 0, 0, 0, 255],
                            ''d.png'' \<mapsto> [2, 1, 0, 0, 0, 0, 0, 0, 0, 0]]\<rparr>)"
proof -
  let ?s = "world0\<lparr>files := [''a.png'' \<mapsto> [1, 1, 0, 0, 0, 255],
                             ''b.png'' \<mapsto> [2, 1, 0, 0, 0, 255, 0, 0, 0, 255],
                             ''c.png'' \<mapsto> [1, 2, 0, 0, 0, 255, 0, 0, 0, 255]]\<rparr>"
  let ?a = "\<lparr>width = 1, height = 1, data = [0, 0, 0, 255 :: 8 word]\<rparr>"
  let ?b = "\<lparr>width = 2, height = 1, data = [0, 0, 0, 255, 0, 0, 0, 255 :: 8 word]\<rparr>"
  let ?c = "\<lparr>width = 1, height = 2, data = [0, 0, 0, 255, 0, 0, 0, 255 :: 8 word]\<rparr>"
  have fa: "files ?s ''a.png'' = Some [1, 1, 0, 0, 0, 255]"
    and fb: "files ?s ''b.png'' = Some [2, 1, 0, 0, 0, 255, 0, 0, 0, 255]"
    and fc: "files ?s ''c.png'' = Some [1, 2, 0, 0, 0, 255, 0, 0, 0, 255]"
    by simp_all
  have ra: "png_read demo_env [1, 1, 0, 0, 0, 255] = Inr ?a"
    and rb: "png_read demo_env [2, 1, 0, 0, 0, 255, 0, 0, 0, 255] = Inr ?b"
    and rc: "png_read demo_env [1, 2, 0, 0, 0, 255, 0, 0, 0, 255] = Inr ?c"
    by (simp_all add: demo_env_def demo_read_def)
  have dab: "width ?a \<noteq> width ?b \<or> height ?a \<noteq> height ?b"
    and dbc: "width ?b \<noteq> width ?c \<or> height ?b \<noteq> height ?c"
    by simp_all
  have guard: "\<forall>x y out w h thr. length x \<noteq> length y \<longrightarrow>
                 (\<exists>e. pixelmatch demo_env x y out w h thr = Inl e)"
    by (simp add: demo_env_def demo_pixelmatch_def)
  have sizes: "length (data ?a) = 4 * width ?a * height ?a"
    "length (data ?b) = 4 * width ?b * height ?b"
    "width ?a * height ?a \<noteq> width ?b * height ?b"
    by simp_all
  have cmp: "pixelmatch demo_env (data ?b) (data ?c) (data (new_PNG (width ?b) (height ?b)))
               (width ?b) (height ?b) threshold = Inr (0, [0, 0, 0, 0, 0, 0, 0, 0])"
    by (simp add: demo_env_def demo_pixelmatch_def new_PNG_def replicate_eight)
  have enc: "png_write demo_env ((new_PNG (width ?b) (height ?b))\<lparr>data := [0, 0, 0, 0, 0, 0, 0, 0]\<rparr>)
               = Inr [2, 1, 0, 0, 0, 0, 0, 0, 0, 0]"
    by (simp add: demo_env_def demo_write_def new_PNG_def)
  have wr: "fs_writable demo_env ''d.png''"
    by (simp add: demo_env_def)
  note ab = compareScreenshots_unequal_dimensions [OF fa ra fb rb dab, of "''d.png''",
              THEN conjunct2, THEN conjunct2, THEN conjunct2, THEN conjunct2, rule_format,
              OF conjI [OF guard conjI [OF sizes(1) conjI [OF sizes(2) sizes(3)]]]]
  note bc = compareScreenshots_unequal_dimensions [OF fb rb fc rc dbc, of "''d.png''",
              THEN conjunct2, THEN conjunct2, THEN conjunct1, rule_format,
              OF conjI [OF cmp conjI [OF enc wr]]]
  from ab have 1: "fst (compareScreenshots demo_env ''a.png'' ''b.png'' ''d.png'' ?s) = Inr False"
    and 2: "files (snd (compareScreenshots demo_env ''a.png'' ''b.png'' ''d.png'' ?s)) ''d.png'' = None"
    by (simp_all add: world0_def)
  from bc have 3: "compareScreenshots demo_env ''b.png'' ''c.png'' ''d.png'' ?s
       = (Inr True,
          world0\<lparr>files := [''a.png'' \<mapsto> [1, 1, 0, 0, 0, 255],
                            ''b.png'' \<mapsto> [2, 1, 0, 0, 0, 255, 0, 0, 0, 255],
                            ''c.png'' \<mapsto> [1, 2, 0, 0, 0, 255, 0, 0, 0, 255],
                            ''d.png'' \<mapsto> [2, 1, 0, 0, 0, 0, 0, 0, 0, 0]]\<rparr>)"
    by simp
  from fa ra rb rc 1 2 3 show ?thesis
    by (intro conjI)
qed

text \<open>
  Claim C5 as stated fails in its second half: \<open>createBaselineImage\<close> makes no existence
  check. In the example a baseline for \<open>home\<close> exists, and a direct call replaces it with
  the new capture.
\<close>

theorem createBaselineImage_overwrites_counterexample:
  "files (world0\<lparr>files := [baselineImage_path demo_env ''home'' \<mapsto> [1, 1, 9, 9, 9, 255]]\<rparr>)
         (baselineImage_path demo_env ''home'') = Some [1, 1, 9, 9, 9, 255]
   \<and> files (snd (createBaselineImage demo_page demo_env ''home'' None
              (world0\<lparr>files := [baselineImage_path demo_env ''home'' \<mapsto> [1, 1, 9, 9, 9, 255]]\<rparr>)))
         (baselineImage_path demo_env ''home'') = Some demo_shot
   \<and> demo_shot \<noteq> [1, 1, 9, 9, 9, 255]"
  by (simp add: createBaselineImage_def captureScreenshot_def catch_log_swallow_def
        catch_log_rethrow_def fs_copyFileSync_def demo_page_def demo_env_def Let_def
        currentImage_path_def demo_shot_def)

lemma createBaselineImage_writes:
  assumes "snd (page_waitForTimeout pg (Some (case timeoutArg of None \<Rightarrow> 2000 | Some t \<Rightarrow> t))) = Inr ()"
    and "page_screenshot pg (currentImage_path ev testName) = Inr c"
    and "fs_writable ev (baselineImage_path ev testName)"
  shows "files (snd (createBaselineImage pg ev testName timeoutArg s)) (baselineImage_path ev testName)
           = Some c"
  using assms
  by (simp add: createBaselineImage_def captureScreenshot_def catch_log_swallow_def
        catch_log_rethrow_def fs_copyFileSync_def Let_def currentImage_path_def)

text \<open>
  Claim C5 as amended. For every test name \<open>name\<close> whose baseline file exists, a run of
  \<open>runVisualTests\<close> (for the same or any other test name) leaves that file with the content
  it had; a run changes no file other than its own current image, its own diff image, and
  its own baseline when that did not exist before the run. So inside \<open>runVisualTests\<close> the
  baseline is written only by the baseline creation done when it is absent. A direct call
  of \<open>createBaselineImage\<close> is not so guarded: when the wait, the capture and the copy
  succeed, the baseline holds the new capture afterwards, whatever it held before. In the
  example the first run creates the baseline of \<open>home\<close>; a second run, on a page that looks
  different and under a test name that names the same baseline file through \<open>..\<close>
  segments, leaves it as it is; a direct call of \<open>createBaselineImage\<close> replaces it.
\<close>

theorem runVisualTests_keeps_baseline:
  assumes "files s (baselineImage_path ev name) = Some b"
  shows "files (snd (runVisualTests pg ev testName timeoutArg s)) (baselineImage_path ev name) = Some b
    \<and> (\<forall>p. files (snd (runVisualTests pg ev testName timeoutArg s)) p \<noteq> files s p \<longrightarrow>
          p = currentImage_path ev testName \<or> p = diffImage_path ev testName
          \<or> (p = baselineImage_path ev testName \<and> files s p = None))
    \<and> (\<forall>c. snd (page_waitForTimeout pg (Some (case timeoutArg of None \<Rightarrow> 2000 | Some t \<Rightarrow> t))) = Inr ()
          \<and> page_screenshot pg (currentImage_path ev name) = Inr c
          \<and> fs_writable ev (baselineImage_path ev name) \<longrightarrow>
          files (snd (createBaselineImage pg ev name timeoutArg s)) (baselineImage_path ev name)
            = Some c)"
proof -
  have "files (snd (runVisualTests pg ev testName timeoutArg s)) (baselineImage_path ev name)
          = files s (baselineImage_path ev name)"
  proof (rule ccontr)
    assume "\<not> ?thesis"
    from runVisualTests_files [OF this] assms show False
      by (auto simp add: baseline_not_current baseline_not_diff)
  qed
  with assms runVisualTests_files createBaselineImage_writes show ?thesis by metis
qed

theorem runVisualTests_keeps_baseline_witness:
  "files (snd (runVisualTests demo_page demo_env ''home'' None world0))
         (baselineImage_path demo_env ''home'') = Some demo_shot
   \<and> baselineImage_path demo_env ''../baseline/x/../home'' = baselineImage_path demo_env ''home''
   \<and> files (snd (runVisualTests
                   (demo_page\<lparr>page_screenshot := \<lambda>p. Inr [2, 1, 9, 9, 9, 255, 9, 9, 9, 255]\<rparr>)
                   demo_env ''../baseline/x/../home'' None
                   (snd (runVisualTests demo_page demo_env ''home'' None world0))))
           (baselineImage_path demo_env ''home'') = Some demo_shot
   \<and> files (snd (createBaselineImage
                   (demo_page\<lparr>page_screenshot := \<lambda>p. Inr [2, 1, 9, 9, 9, 255, 9, 9, 9, 255]\<rparr>)
                   demo_env ''home'' None
                   (snd (runVisualTests demo_page demo_env ''home'' None world0))))
           (baselineImage_path demo_env ''home'') = Some [2, 1, 9, 9, 9, 255, 9, 9, 9, 255]"
proof -
  let ?s1 = "snd (runVisualTests demo_page demo_env ''home'' None world0)"
  let ?pg = "demo_page\<lparr>page_screenshot := \<lambda>p. Inr [2, 1, 9, 9, 9, 255, 9, 9, 9, 255]\<rparr>"
  have first: "files ?s1 (baselineImage_path demo_env ''home'') = Some demo_shot"
    by (simp add: runVisualTests_def createBaselineImage_def captureScreenshot_def
          catch_log_swallow_def catch_log_rethrow_def fs_existsSync_def fs_copyFileSync_def
          world0_def demo_page_def demo_env_def Let_def currentImage_path_def)
  have t: "snd (page_waitForTimeout ?pg (Some (case None of None \<Rightarrow> 2000 | Some t \<Rightarrow> t))) = Inr ()"
    by (simp add: demo_page_def)
  have c: "page_screenshot ?pg (currentImage_path demo_env ''home'')
             = Inr [2, 1, 9, 9, 9, 255, 9, 9, 9, 255]"
    by simp
  have w: "fs_writable demo_env (baselineImage_path demo_env ''home'')"
    by (simp add: demo_env_def)
  note k = runVisualTests_keeps_baseline [OF first, of ?pg "''../baseline/x/../home''" None]
  have same: "baselineImage_path demo_env ''../baseline/x/../home'' = baselineImage_path demo_env ''home''"
    by (simp add: baselineImage_path_def path_join_def path_normalize_def demo_env_def baselineDir_def)
  from k [THEN conjunct1] k [THEN conjunct2, THEN conjunct2, rule_format, OF conjI [OF t conjI [OF c w]]]
    first same
  show ?thesis by (intro conjI)
qed

text \<open>When the comparison fails inside, the run logs the difference line and returns.\<close>

lemma runVisualTests_compare_caught:
  assumes "fs_existsSync (baselineImage_path ev testName) s"
    and "snd (page_waitForTimeout pg (Some timeout)) = Inr ()"
    and "fst (captureScreenshot pg ev (currentImage_name ev testName) s) = Inr ()"
    and "compareScreenshots_try ev (baselineImage_path ev testName) (currentImage_path ev testName)
           (diffImage_path ev testName) (snd (captureScreenshot pg ev (currentImage_name ev testName) s))
         = Inl e"
  shows "runVisualTests pg ev testName (Some timeout) s
         = (Inr (),
            logger_error (''Visual difference detected for '' @ testName @ ''. Check ''
                           @ diffImage_path ev testName @ '' for differences.'')
              (logger_error (''Error while comparing screenshots: '' @ String_error e)
                 (snd (captureScreenshot pg ev (currentImage_name ev testName) s))))"
proof -
  obtain s1 where c: "captureScreenshot pg ev (currentImage_name ev testName) s = (Inr (), s1)"
    using assms(3) by (cases "captureScreenshot pg ev (currentImage_name ev testName) s") simp
  with assms(4) have "compareScreenshots ev (baselineImage_path ev testName)
      (currentImage_path ev testName) (diffImage_path ev testName) s1
    = (Inr False, logger_error (''Error while comparing screenshots: '' @ String_error e) s1)"
    by (simp add: compareScreenshots_caught)
  with assms(1,2) c show ?thesis
    by (simp add: runVisualTests_def Let_def catch_log_swallow_def)
qed

text \<open>
  Claim C9. For every pair of input paths \<open>compareScreenshots\<close> returns a boolean and never
  an error. Whenever a step inside it raises, the error is caught, one error line is
  logged, the files are untouched and the call resolves with \<open>false\<close>; in particular when
  an input file cannot be read, when an input cannot be decoded, and when the pixel
  comparer rejects the pair. \<open>runVisualTests\<close> then treats the outcome as a visual
  difference: it logs the difference line and returns normally.
\<close>

theorem compareScreenshots_never_raises:
  "(\<exists>identical. fst (compareScreenshots ev image1 image2 diffImage s) = Inr identical)
   \<and> (\<forall>e. compareScreenshots_try ev image1 image2 diffImage s = Inl e \<longrightarrow>
         compareScreenshots ev image1 image2 diffImage s
           = (Inr False, logger_error (''Error while comparing screenshots: '' @ String_error e) s))
   \<and> (files s image1 = None \<or> files s image2 = None \<longrightarrow>
         fst (compareScreenshots ev image1 image2 diffImage s) = Inr False)
   \<and> (\<forall>b e. (files s image1 = Some b \<or> files s image2 = Some b) \<and> png_read ev b = Inl e \<longrightarrow>
         fst (compareScreenshots ev image1 image2 diffImage s) = Inr False)
   \<and> (\<forall>b1 b2 img1 img2 e.
         files s image1 = Some b1 \<and> png_read ev b1 = Inr img1
         \<and> files s image2 = Some b2 \<and> png_read ev b2 = Inr img2
         \<and> pixelmatch ev (data img1) (data img2) (data (new_PNG (width img1) (height img1)))
             (width img1) (height img1) threshold = Inl e \<longrightarrow>
         fst (compareScreenshots ev image1 image2 diffImage s) = Inr False)
   \<and> (\<forall>e. fs_existsSync (baselineImage_path ev testName) s
         \<and> snd (page_waitForTimeout pg (Some timeout)) = Inr ()
         \<and> fst (captureScreenshot pg ev (currentImage_name ev testName) s) = Inr ()
         \<and> compareScreenshots_try ev (baselineImage_path ev testName) (currentImage_path ev testName)
             (diffImage_path ev testName)
             (snd (captureScreenshot pg ev (currentImage_name ev testName) s)) = Inl e \<longrightarrow>
         runVisualTests pg ev testName (Some timeout) s
           = (Inr (),
              logger_error (''Visual difference detected for '' @ testName @ ''. Check ''
                             @ diffImage_path ev testName @ '' for differences.'')
                (logger_error (''Error while comparing screenshots: '' @ String_error e)
                   (snd (captureScreenshot pg ev (currentImage_name ev testName) s)))))"
proof -
  have unreadable: "fst (compareScreenshots ev image1 image2 diffImage s) = Inr False"
    if "files s image1 = None \<or> files s image2 = None"
    using that
    by (auto simp add: compareScreenshots_def compareScreenshots_try_def fs_readFileSync_def
          split: sum.splits option.splits)
  have undecodable: "fst (compareScreenshots ev image1 image2 diffImage s) = Inr False"
    if "(files s image1 = Some b \<or> files s image2 = Some b) \<and> png_read ev b = Inl e" for b e
    using that
    by (auto simp add: compareScreenshots_def compareScreenshots_try_def fs_readFileSync_def
          split: sum.splits option.splits)
  have rejected: "fst (compareScreenshots ev image1 image2 diffImage s) = Inr False"
    if "files s image1 = Some b1 \<and> png_read ev b1 = Inr img1
         \<and> files s image2 = Some b2 \<and> png_read ev b2 = Inr img2
         \<and> pixelmatch ev (data img1) (data img2) (data (new_PNG (width img1) (height img1)))
             (width img1) (height img1) threshold = Inl e" for b1 b2 img1 img2 e
    using that
    by (simp add: compareScreenshots_def compareScreenshots_try_def fs_readFileSync_def Let_def)
  show ?thesis
    using compareScreenshots_result [of ev image1 image2 diffImage s]
      compareScreenshots_caught [of ev image1 image2 diffImage s]
      unreadable undecodable rejected
      runVisualTests_compare_caught [of ev testName s pg timeout]
    by (intro conjI allI impI) blast+
qed

theorem compareScreenshots_never_raises_witness:
  "files world0 ''a.png'' = None
   \<and> compareScreenshots demo_env ''a.png'' ''b.png'' ''d.png'' world0
       = (Inr False,
          logger_error (''Error while comparing screenshots: ''
            @ String_error (new_Error (''ENOENT: no such file or directory, open '' @ quoted ''a.png'')))
            world0)
   \<and> fs_existsSync (baselineImage_path demo_env ''home'')
        (world0\<lparr>files := [baselineImage_path demo_env ''home'' \<mapsto> [7]]\<rparr>)
   \<and> png_read demo_env [7] = Inl (Err ''Error'' ''Invalid file signature'')
   \<and> fst (runVisualTests demo_page demo_env ''home'' (Some 2000)
            (world0\<lparr>files := [baselineImage_path demo_env ''home'' \<mapsto> [7]]\<rparr>)) = Inr ()
   \<and> last (logs (snd (runVisualTests demo_page demo_env ''home'' (Some 2000)
            (world0\<lparr>files := [baselineImage_path demo_env ''home'' \<mapsto> [7]]\<rparr>))))
       = (Error, ''Visual difference detected for home. Check ''
                  @ diffImage_path demo_env ''home'' @ '' for differences.'')"
proof -
  let ?s = "world0\<lparr>files := [baselineImage_path demo_env ''home'' \<mapsto> [7]]\<rparr>"
  let ?s1 = "snd (captureScreenshot demo_page demo_env (currentImage_name demo_env ''home'') ?s)"
  have 1: "files world0 ''a.png'' = None"
    by (simp add: world0_def)
  have 2: "compareScreenshots_try demo_env ''a.png'' ''b.png'' ''d.png'' world0
           = Inl (new_Error (''ENOENT: no such file or directory, open '' @ quoted ''a.png''))"
    by (simp add: compareScreenshots_try_def fs_readFileSync_def world0_def)
  have 3: "fs_existsSync (baselineImage_path demo_env ''home'') ?s"
    by (simp add: fs_existsSync_def)
  have 4: "png_read demo_env [7] = Inl (Err ''Error'' ''Invalid file signature'')"
    by (simp add: demo_env_def demo_read_def)
  have 5: "snd (page_waitForTimeout demo_page (Some 2000)) = Inr ()"
    by (simp add: demo_page_def)
  have 6: "fst (captureScreenshot demo_page demo_env (currentImage_name demo_env ''home'') ?s) = Inr ()"
    by (simp add: captureScreenshot_def catch_log_rethrow_def demo_page_def)
  have "files ?s1 (baselineImage_path demo_env ''home'') = Some [7]"
    by (simp add: captureScreenshot_files baseline_not_current [unfolded currentImage_path_def])
  with 4 have 7: "compareScreenshots_try demo_env (baselineImage_path demo_env ''home'')
                    (currentImage_path demo_env ''home'') (diffImage_path demo_env ''home'') ?s1
                  = Inl (Err ''Error'' ''Invalid file signature'')"
    by (simp add: compareScreenshots_try_def fs_readFileSync_def)
  note a = compareScreenshots_never_raises
         [where ev = demo_env and ?image1.0 = "''a.png''" and ?image2.0 = "''b.png''"
            and diffImage = "''d.png''" and s = world0 and testName = "''home''"
            and pg = demo_page and timeout = 2000,
          THEN conjunct2, THEN conjunct1, rule_format, OF 2]
  have "runVisualTests demo_page demo_env ''home'' (Some 2000) ?s
          = (Inr (),
              logger_error (''Visual difference detected for '' @ ''home'' @ ''. Check ''
                             @ diffImage_path demo_env ''home'' @ '' for differences.'')
                (logger_error (''Error while comparing screenshots: ''
                                 @ String_error (Err ''Error'' ''Invalid file signature'')) ?s1))"
    by (rule compareScreenshots_never_raises
         [where ev = demo_env and ?image1.0 = "''a.png''" and ?image2.0 = "''b.png''"
            and diffImage = "''d.png''" and s = ?s and testName = "''home''"
            and pg = demo_page and timeout = 2000,
          THEN conjunct2, THEN conjunct2, THEN conjunct2, THEN conjunct2, THEN conjunct2,
          rule_format, OF conjI [OF 3 conjI [OF 5 conjI [OF 6 7]]]])
  then have b: "fst (runVisualTests demo_page demo_env ''home'' (Some 2000) ?s) = Inr ()"
    and c: "last (logs (snd (runVisualTests demo_page demo_env ''home'' (Some 2000) ?s)))
       = (Error, ''Visual difference detected for home. Check ''
                  @ diffImage_path demo_env ''home'' @ '' for differences.'')"
    by simp_all
  from 1 a 3 4 b c show ?thesis by (intro conjI)
qed

end
